theory Spec2Isabelle
  imports Complex_Main "HOL-Library.Monad_Syntax"
begin

section \<open>JavaScript values\<close>

text \<open>
  The server reads and writes its configuration as JSON, so a configuration, a tile and a
  request body are values of the type \<open>json\<close>. An object is an association list in
  insertion order (a property read takes the first binding of a key), a number is a
  finite rational, an infinity or NaN. Strings are byte strings: the whitespace and
  control classes and the length caps below agree with JavaScript's on ASCII text.
  A function that can throw returns an \<open>option\<close>: \<open>None\<close> is the uncaught
  TypeError, \<open>Some v\<close> the returned value.
\<close>

datatype jsnum = Fin rat | PosInf | NegInf | NaN

datatype json =
    JNull
  | JBool bool
  | JNum jsnum
  | JStr string
  | JArr "json list"
  | JObj "(string \<times> json) list"

text \<open>
  What the platform provides and the repository does not define: number formatting and
  parsing, the WHATWG URL parser (protocol and serialisation of a URL that parses), the
  functions of Node's \<open>path\<close> module (\<open>basenameWithout p ext\<close> is
  \<open>path.basename(p, ext)\<close>), the process environment, the file system tests, the
  collation of labels, JSON serialisation, the random token and the environment switch
  that disables autodetection.
\<close>

record platform =
  numToStr :: "jsnum \<Rightarrow> string"
  strToNum :: "string \<Rightarrow> jsnum"
  parseUrl :: "string \<Rightarrow> (string \<times> string) option"
  pathJoin :: "string list \<Rightarrow> string"
  processEnv :: "string \<Rightarrow> string option"
  cwd :: string
  fileExists :: "string \<Rightarrow> bool"
  dirExists :: "string \<Rightarrow> bool"
  basename :: "string \<Rightarrow> string"
  basenameWithout :: "string \<Rightarrow> string \<Rightarrow> string"
  extname :: "string \<Rightarrow> string"
  localeCompare :: "string \<Rightarrow> string \<Rightarrow> int"
  jsonStringify :: "json \<Rightarrow> string"
  randomToken :: string
  DISABLE_AUTODETECT :: bool

text \<open>A property read \<open>v.k\<close> on a value that is not null; \<open>None\<close> is undefined.
  None of the property names the server reads is an index or a prototype member.\<close>

fun get :: "json \<Rightarrow> string \<Rightarrow> json option" where
  "get (JObj kvs) k = map_of kvs k"
| "get _ k = None"

fun truthy :: "json option \<Rightarrow> bool" where
  "truthy None = False"
| "truthy (Some JNull) = False"
| "truthy (Some (JBool b)) = b"
| "truthy (Some (JNum (Fin r))) = (r \<noteq> 0)"
| "truthy (Some (JNum NaN)) = False"
| "truthy (Some (JNum _)) = True"
| "truthy (Some (JStr s)) = (s \<noteq> [])"
| "truthy (Some (JArr _)) = True"
| "truthy (Some (JObj _)) = True"

fun isObject :: "json option \<Rightarrow> bool" where
  "isObject (Some (JObj _)) = True"
| "isObject (Some (JArr _)) = True"
| "isObject _ = False"

fun join_with :: "string \<Rightarrow> string list \<Rightarrow> string" where
  "join_with sep [] = []"
| "join_with sep [x] = x"
| "join_with sep (x # y # ys) = x @ sep @ join_with sep (y # ys)"

text \<open>\<open>String(v)\<close>: an array joins its elements with commas, null elements as the
  empty string.\<close>

fun toStr :: "platform \<Rightarrow> json \<Rightarrow> string" where
  "toStr P JNull = ''null''"
| "toStr P (JBool b) = (if b then ''true'' else ''false'')"
| "toStr P (JNum n) = numToStr P n"
| "toStr P (JStr s) = s"
| "toStr P (JArr xs) = join_with '','' (map (\<lambda>x. if x = JNull then [] else toStr P x) xs)"
| "toStr P (JObj kvs) = ''[object Object]''"

text \<open>\<open>String(v || "")\<close>.\<close>

definition strOr :: "platform \<Rightarrow> json option \<Rightarrow> string" where
  "strOr P v = (if truthy v then toStr P (the v) else [])"

section \<open>Primitives\<close>

definition isSpace :: "char \<Rightarrow> bool" where
  "isSpace c = (c \<in> {CHR '' '', CHR 0x09, CHR 0x0A, CHR 0x0B, CHR 0x0C, CHR 0x0D})"

definition isControl :: "char \<Rightarrow> bool" where
  "isControl c = (of_char c < (32::int) \<or> of_char c = (127::int))"

definition trim :: "string \<Rightarrow> string" where
  "trim s = rev (dropWhile isSpace (rev (dropWhile isSpace s)))"

fun startsWith :: "string \<Rightarrow> string \<Rightarrow> bool" where
  "startsWith s p = (take (length p) s = p)"

fun str_includes :: "string \<Rightarrow> string \<Rightarrow> bool" where
  "str_includes [] p = (p = [])"
| "str_includes (c # cs) p = (startsWith (c # cs) p \<or> str_includes cs p)"

definition safeTrim :: "platform \<Rightarrow> json option \<Rightarrow> nat \<Rightarrow> string" where
  "safeTrim P v maxLen = take maxLen (filter (\<lambda>c. \<not> isControl c) (trim (strOr P v)))"

text \<open>\<open>uniq\<close>: the strings of a list, trimmed, without the empty ones and without
  repetitions, in order of first occurrence.\<close>

fun uniq_loop :: "string list \<Rightarrow> json list \<Rightarrow> string list" where
  "uniq_loop out [] = out"
| "uniq_loop out (JStr s # rest) =
     (let v = trim s in
      if v = [] \<or> v \<in> set out then uniq_loop out rest else uniq_loop (out @ [v]) rest)"
| "uniq_loop out (_ # rest) = uniq_loop out rest"

definition uniq :: "json list \<Rightarrow> string list" where
  "uniq xs = uniq_loop [] xs"

fun safeArray_loop :: "platform \<Rightarrow> nat \<Rightarrow> nat \<Rightarrow> string list \<Rightarrow> json list \<Rightarrow> string list" where
  "safeArray_loop P itemMaxLen maxItems out [] = out"
| "safeArray_loop P itemMaxLen maxItems out (v # rest) =
     (if length out \<ge> maxItems then out
      else let item = safeTrim P (Some (JStr (strOr P (Some v)))) itemMaxLen in
        safeArray_loop P itemMaxLen maxItems (if item \<noteq> [] then out @ [item] else out) rest)"

definition safeArray :: "platform \<Rightarrow> json option \<Rightarrow> nat \<Rightarrow> nat \<Rightarrow> string list" where
  "safeArray P input itemMaxLen maxItems =
     (case input of Some (JArr xs) \<Rightarrow> safeArray_loop P itemMaxLen maxItems [] xs | _ \<Rightarrow> [])"

definition MAX_PATH_LEN :: int where
  "MAX_PATH_LEN = 2048"

definition MAX_ICON_DATA_URL_LEN :: int where
  "MAX_ICON_DATA_URL_LEN = 2000000"

definition TILE_TYPES :: "string list" where
  "TILE_TYPES = [''action'', ''app'', ''folder'', ''url'', ''protocol'']"

definition ICON_MODES :: "string list" where
  "ICON_MODES = [''auto'', ''emoji'', ''image'']"

definition TILE_SHOW_IF :: "string list" where
  "TILE_SHOW_IF = [[], ''wowRunning'', ''wowNotRunning'']"

definition NAMED_ACTIONS :: "string list" where
  "NAMED_ACTIONS = [''terminal'', ''powershell'', ''browser'', ''discord'', ''wowStart'',
     ''openWorkspace'', ''vscode'', ''wowClassic'', ''wowTBC'', ''openWowAddons'',
     ''openWowLogs'', ''openWowWtf'']"

section \<open>Tile validator\<close>

definition isAlpha :: "char \<Rightarrow> bool" where
  "isAlpha c = (((97::int) \<le> of_char c \<and> of_char c \<le> (122::int))
     \<or> ((65::int) \<le> of_char c \<and> of_char c \<le> (90::int)))"

definition isSchemeChar :: "char \<Rightarrow> bool" where
  "isSchemeChar c = (isAlpha c \<or> ((48::int) \<le> of_char c \<and> of_char c \<le> (57::int))
     \<or> c = CHR ''+'' \<or> c = CHR ''.'' \<or> c = CHR ''-'')"

text \<open>The test \<open>/^[a-z][a-z0-9+.-]*:/i\<close>: a letter, scheme characters, then a colon.\<close>

fun hasScheme :: "string \<Rightarrow> bool" where
  "hasScheme [] = False"
| "hasScheme (c # cs) =
     (isAlpha c \<and> (case dropWhile isSchemeChar cs of [] \<Rightarrow> False | d # _ \<Rightarrow> d = CHR '':''))"

text \<open>\<open>normalizeProtocolTarget\<close> and \<open>normalizeHttpUrl\<close>, on the string the tile
  validator passes them.\<close>

definition normalizeProtocolTarget :: "string \<Rightarrow> string" where
  "normalizeProtocolTarget rawInput =
     (let raw = trim rawInput in
      if raw = [] \<or> int (length raw) > MAX_PATH_LEN \<or> CHR 0x00 \<in> set raw then []
      else if \<not> hasScheme raw then []
      else if \<exists>c \<in> set raw. isSpace c then []
      else raw)"

definition normalizeHttpUrl :: "platform \<Rightarrow> string \<Rightarrow> string" where
  "normalizeHttpUrl P rawInput =
     (let raw = trim rawInput in
      if raw = [] then []
      else case parseUrl P (if str_includes raw ''://'' then raw else ''https://'' @ raw) of
          None \<Rightarrow> []
        | Some (protocol, href) \<Rightarrow>
            if protocol \<noteq> ''http:'' \<and> protocol \<noteq> ''https:'' then [] else href)"

text \<open>A string property that is set only when the raw value is a string with a non-blank
  trim.\<close>

fun nonBlankStr :: "json option \<Rightarrow> string option" where
  "nonBlankStr (Some (JStr s)) = (if trim s \<noteq> [] then Some s else None)"
| "nonBlankStr _ = None"

fun optField :: "string \<Rightarrow> string option \<Rightarrow> (string \<times> json) list" where
  "optField k None = []"
| "optField k (Some s) = [(k, JStr s)]"

definition strOf :: "string option \<Rightarrow> string" where
  "strOf v = (case v of None \<Rightarrow> [] | Some s \<Rightarrow> s)"

text \<open>\<open>normalizeTile\<close>: the tile as an object, or \<open>JNull\<close>. The object is built in
  \<open>tileBase\<close> (the properties every tile has) and the optional properties; the checks
  that return null once the properties are read are in \<open>checkTile\<close>.\<close>

definition tileBase ::
  "platform \<Rightarrow> json \<Rightarrow> string \<Rightarrow> string \<Rightarrow> string \<Rightarrow> string \<Rightarrow> string \<Rightarrow> (string \<times> json) list" where
  "tileBase P raw tid profile page label type =
     (let showIf = safeTrim P (get raw ''showIf'') 24 in
      [(''id'', JStr tid), (''profile'', JStr profile), (''page'', JStr page),
       (''label'', JStr label),
       (''subtitle'', JStr (safeTrim P (get raw ''subtitle'') 140)),
       (''type'', JStr type),
       (''builtin'', JBool (truthy (get raw ''builtin''))),
       (''showIf'', JStr (if showIf \<in> set TILE_SHOW_IF then showIf else [])),
       (''iconMode'',
          (case get raw ''iconMode'' of
             Some (JStr m) \<Rightarrow> if m \<in> set ICON_MODES then JStr m else JStr ''emoji''
           | _ \<Rightarrow> JStr ''emoji'')),
       (''icon'', JStr (safeTrim P (get raw ''icon'') 12)),
       (''iconData'',
          (case get raw ''iconData'' of
             Some (JStr d) \<Rightarrow> if int (length d) \<le> MAX_ICON_DATA_URL_LEN then JStr d else JStr []
           | _ \<Rightarrow> JStr []))])"

definition checkTile ::
  "platform \<Rightarrow> string \<Rightarrow> (string \<times> json) list \<Rightarrow> string option \<Rightarrow> string option
     \<Rightarrow> (string \<times> json) list \<Rightarrow> string option \<Rightarrow> string option \<Rightarrow> json" where
  "checkTile P type base launcherKey target args startIn action =
     (if CHR 0x00 \<in> set (strOf target) \<or> int (length (strOf target)) > MAX_PATH_LEN then JNull
      else if CHR 0x00 \<in> set (strOf startIn) \<or> int (length (strOf startIn)) > MAX_PATH_LEN
        then JNull
      else if type = ''action'' \<and> (strOf action = [] \<or> strOf action \<notin> set NAMED_ACTIONS)
        then JNull
      else if type = ''app'' \<and> strOf target = [] \<and> strOf launcherKey = [] then JNull
      else if (type = ''folder'' \<or> type = ''url'' \<or> type = ''protocol'')
              \<and> strOf target = [] then JNull
      else if type = ''url'' \<and> normalizeHttpUrl P (strOf target) = [] then JNull
      else if type = ''protocol'' \<and> normalizeProtocolTarget (strOf target) = [] then JNull
      else JObj (base @ optField ''launcherKey'' launcherKey @ optField ''target'' target
                   @ args @ optField ''startIn'' startIn @ optField ''action'' action))"

definition normalizeTile :: "platform \<Rightarrow> json \<Rightarrow> json" where
  "normalizeTile P raw =
     (if \<not> truthy (Some raw) \<or> \<not> isObject (Some raw) then JNull
      else
        let id = safeTrim P (get raw ''id'') 64;
            profile = safeTrim P (get raw ''profile'') 64;
            page = safeTrim P (if truthy (get raw ''page'') then get raw ''page''
                               else Some (JStr ''main'')) 64;
            label = safeTrim P (get raw ''label'') 80;
            type = safeTrim P (get raw ''type'') 32
        in
        if id = [] \<or> profile = [] \<or> page = [] \<or> label = [] \<or> type = [] then JNull
        else if type \<notin> set TILE_TYPES then JNull
        else
          checkTile P type (tileBase P raw id profile page label type)
            (map_option (\<lambda>s. safeTrim P (Some (JStr s)) 64)
               (nonBlankStr (get raw ''launcherKey'')))
            (map_option trim (nonBlankStr (get raw ''target'')))
            (case get raw ''args'' of
               Some (JArr xs) \<Rightarrow>
                 [(''args'', JArr (map JStr (safeArray P (Some (JArr xs)) 512 16)))]
             | _ \<Rightarrow> [])
            (map_option trim (nonBlankStr (get raw ''startIn'')))
            (map_option (\<lambda>s. safeTrim P (Some (JStr s)) 64)
               (nonBlankStr (get raw ''action''))))"

section \<open>Configuration defaults\<close>

definition obj_str :: "(string \<times> string) list \<Rightarrow> json" where
  "obj_str kvs = JObj (map (\<lambda>(k, v). (k, JStr v)) kvs)"

definition mainPage :: json where
  "mainPage = obj_str [(''id'', ''main''), (''label'', ''Main'')]"

definition mkProfile :: "string \<Rightarrow> string \<Rightarrow> (string \<times> string) list \<Rightarrow> json" where
  "mkProfile i l pages =
     JObj [(''id'', JStr i), (''label'', JStr l),
           (''pages'', JArr (map (\<lambda>(pi, pl). obj_str [(''id'', pi), (''label'', pl)]) pages))]"

definition getDefaultProfiles :: "json list" where
  "getDefaultProfiles =
     [mkProfile ''work'' ''Work'' [(''main'', ''Main''), (''dev'', ''Dev'')],
      mkProfile ''wow'' ''WoW'' [(''main'', ''Main''), (''addons'', ''Addons'')],
      mkProfile ''streaming'' ''Streaming'' [(''main'', ''Main''), (''social'', ''Social'')],
      mkProfile ''fav'' ''Favorites'' [(''main'', ''Main'')]]"

text \<open>The icons of the built-in tiles are emoji; they are written as their UTF-8 bytes.\<close>

definition icon_laptop :: string where
  "icon_laptop = [CHR 0xF0, CHR 0x9F, CHR 0x92, CHR 0xBB]"
definition icon_keyboard :: string where
  "icon_keyboard = [CHR 0xE2, CHR 0x8C, CHR 0xA8, CHR 0xEF, CHR 0xB8, CHR 0x8F]"
definition icon_toolbox :: string where
  "icon_toolbox = [CHR 0xF0, CHR 0x9F, CHR 0xA7, CHR 0xB0]"
definition icon_folder :: string where
  "icon_folder = [CHR 0xF0, CHR 0x9F, CHR 0x93, CHR 0x81]"
definition icon_game :: string where
  "icon_game = [CHR 0xF0, CHR 0x9F, CHR 0x8E, CHR 0xAE]"
definition icon_puzzle :: string where
  "icon_puzzle = [CHR 0xF0, CHR 0x9F, CHR 0xA7, CHR 0xA9]"
definition icon_memo :: string where
  "icon_memo = [CHR 0xF0, CHR 0x9F, CHR 0x93, CHR 0x9D]"
definition icon_gear :: string where
  "icon_gear = [CHR 0xE2, CHR 0x9A, CHR 0x99, CHR 0xEF, CHR 0xB8, CHR 0x8F]"
definition icon_speech :: string where
  "icon_speech = [CHR 0xF0, CHR 0x9F, CHR 0x92, CHR 0xAC]"
definition icon_clapper :: string where
  "icon_clapper = [CHR 0xF0, CHR 0x9F, CHR 0x8E, CHR 0xAC]"

text \<open>A built-in tile: the common string properties, then the ones of its type, then
  \<open>iconMode\<close> and \<open>icon\<close>, an optional \<open>showIf\<close>, and \<open>builtin: true\<close>.\<close>

definition mkBuiltin ::
  "string \<Rightarrow> string \<Rightarrow> string \<Rightarrow> string \<Rightarrow> string \<Rightarrow> string \<Rightarrow> (string \<times> json) list
     \<Rightarrow> string \<Rightarrow> string \<Rightarrow> string option \<Rightarrow> json" where
  "mkBuiltin i prof pg l sub ty specific iconMode icon showIf =
     JObj ([(''id'', JStr i), (''profile'', JStr prof), (''page'', JStr pg), (''label'', JStr l),
            (''subtitle'', JStr sub), (''type'', JStr ty)] @ specific
           @ [(''iconMode'', JStr iconMode), (''icon'', JStr icon)]
           @ (case showIf of None \<Rightarrow> [] | Some c \<Rightarrow> [(''showIf'', JStr c)])
           @ [(''builtin'', JBool True)])"

definition getDefaultTiles :: "json list" where
  "getDefaultTiles =
     [mkBuiltin ''vscode'' ''work'' ''dev'' ''VS Code'' ''Workspace'' ''app''
        [(''launcherKey'', JStr ''vscode''), (''args'', JArr [JStr ''.'']),
         (''startIn'', JStr ''{{workspaceDir}}'')] ''auto'' icon_laptop None,
      mkBuiltin ''terminal'' ''work'' ''main'' ''Terminal'' ''Windows Terminal'' ''action''
        [(''action'', JStr ''terminal'')] ''emoji'' icon_keyboard None,
      mkBuiltin ''powershell'' ''work'' ''main'' ''PowerShell'' ''Neue Session'' ''action''
        [(''action'', JStr ''powershell'')] ''emoji'' icon_toolbox None,
      mkBuiltin ''workspace'' ''work'' ''main'' ''Projektordner'' ''Explorer'' ''folder''
        [(''target'', JStr ''{{workspaceDir}}'')] ''emoji'' icon_folder None,
      mkBuiltin ''wowStart'' ''wow'' ''main'' ''WoW Start'' ''Launcher + WoW Profil'' ''action''
        [(''action'', JStr ''wowStart'')] ''emoji'' icon_game (Some ''wowNotRunning''),
      mkBuiltin ''wowLauncher'' ''wow'' ''main'' ''WoW Launcher'' ''Direkt starten'' ''app''
        [(''launcherKey'', JStr ''wow'')] ''auto'' icon_game None,
      mkBuiltin ''wowAddons'' ''wow'' ''addons'' ''AddOns'' ''Ordner oeffnen'' ''folder''
        [(''target'', JStr ''{{wow.folders.addons}}'')] ''emoji'' icon_puzzle (Some ''wowRunning''),
      mkBuiltin ''wowLogs'' ''wow'' ''addons'' ''Logs'' ''Ordner oeffnen'' ''folder''
        [(''target'', JStr ''{{wow.folders.logs}}'')] ''emoji'' icon_memo (Some ''wowRunning''),
      mkBuiltin ''wowWtf'' ''wow'' ''addons'' ''WTF'' ''Ordner oeffnen'' ''folder''
        [(''target'', JStr ''{{wow.folders.wtf}}'')] ''emoji'' icon_gear (Some ''wowRunning''),
      mkBuiltin ''discord'' ''streaming'' ''social'' ''Discord'' ''Protocol'' ''protocol''
        [(''target'', JStr ''discord://'')] ''emoji'' icon_speech None,
      mkBuiltin ''obs'' ''streaming'' ''main'' ''OBS Studio'' ''Streaming'' ''app''
        [(''launcherKey'', JStr ''obs'')] ''auto'' icon_clapper None]"

text \<open>\<open>process.env.X || fallback\<close>.\<close>

definition envOr :: "platform \<Rightarrow> string \<Rightarrow> string \<Rightarrow> string" where
  "envOr P name fallback =
     (case processEnv P name of None \<Rightarrow> fallback | Some v \<Rightarrow> if v = [] then fallback else v)"

text \<open>\<open>a || b\<close> on values.\<close>

definition orElse :: "json option \<Rightarrow> json \<Rightarrow> json" where
  "orElse v d = (if truthy v then the v else d)"

definition mkLauncher :: "json \<Rightarrow> json \<Rightarrow> string list \<Rightarrow> json" where
  "mkLauncher l p cands =
     JObj [(''label'', l), (''path'', p), (''candidates'', JArr (map JStr cands))]"

definition programFiles :: "platform \<Rightarrow> string" where
  "programFiles P = envOr P ''ProgramFiles'' (''C:'' @ [CHR 0x5C] @ ''Program Files'')"

definition programFiles86 :: "platform \<Rightarrow> string" where
  "programFiles86 P =
     envOr P ''ProgramFiles(x86)'' (''C:'' @ [CHR 0x5C] @ ''Program Files (x86)'')"

definition getDefaultLaunchers :: "platform \<Rightarrow> json \<Rightarrow> json" where
  "getDefaultLaunchers P oldConfig =
     (let oldPaths = (if truthy (get oldConfig ''paths'') \<and> isObject (get oldConfig ''paths'')
                      then the (get oldConfig ''paths'') else JObj []);
          localAppData = envOr P ''LOCALAPPDATA'' []
      in JObj
        [(''vscode'', mkLauncher (JStr ''VS Code'') (orElse (get oldPaths ''vscode'') (JStr []))
            (uniq (map JStr
              [pathJoin P [localAppData, ''Programs'', ''Microsoft VS Code'', ''Code.exe''],
               pathJoin P [programFiles P, ''Microsoft VS Code'', ''Code.exe''],
               pathJoin P [programFiles P, ''Microsoft VS Code Insiders'',
                           ''Code - Insiders.exe'']]))),
         (''wow'', mkLauncher (JStr ''World of Warcraft Launcher'')
            (if truthy (get oldPaths ''wowClassic'') then the (get oldPaths ''wowClassic'')
             else orElse (get oldPaths ''wowTBC'') (JStr []))
            (uniq (map JStr
              [pathJoin P [programFiles86 P, ''World of Warcraft'',
                           ''World of Warcraft Launcher.exe''],
               pathJoin P [programFiles P, ''World of Warcraft'',
                           ''World of Warcraft Launcher.exe''],
               pathJoin P [programFiles86 P, ''Battle.net'', ''Battle.net Launcher.exe''],
               pathJoin P [programFiles P, ''Battle.net'', ''Battle.net Launcher.exe'']]))),
         (''obs'', mkLauncher (JStr ''OBS Studio'') (JStr [])
            (uniq (map JStr
              [pathJoin P [programFiles P, ''obs-studio'', ''bin'', ''64bit'', ''obs64.exe''],
               pathJoin P [programFiles86 P, ''obs-studio'', ''bin'', ''64bit'',
                           ''obs64.exe'']])))])"

text \<open>Optional chaining \<open>v?.k\<close>: undefined when \<open>v\<close> is undefined or null.\<close>

fun getChain :: "json option \<Rightarrow> string \<Rightarrow> json option" where
  "getChain None k = None"
| "getChain (Some JNull) k = None"
| "getChain (Some v) k = get v k"

fun isInteger :: "json option \<Rightarrow> bool" where
  "isInteger (Some (JNum (Fin r))) = (r = of_int \<lfloor>r\<rfloor>)"
| "isInteger _ = False"

fun isString :: "json option \<Rightarrow> bool" where
  "isString (Some (JStr _)) = True"
| "isString _ = False"

text \<open>\<open>createDefaultConfig\<close> reads \<open>oldConfig.wow\<close> first: on null that read throws.
  (The parameter's default \<open>{}\<close> replaces undefined only.)\<close>

definition createDefaultConfig :: "platform \<Rightarrow> json \<Rightarrow> json option" where
  "createDefaultConfig P oldConfig =
     (if oldConfig = JNull then None
      else
        let wow = get oldConfig ''wow'';
            wowFolders = (if truthy wow \<and> truthy (get (the wow) ''folders'')
                          then the (get (the wow) ''folders'') else JObj []);
            wowBase = pathJoin P [programFiles86 P, ''World of Warcraft'', ''_classic_''];
            logging = get oldConfig ''logging''
        in Some (JObj
          [(''host'', JStr ''0.0.0.0''),
           (''port'', JNum (Fin 8787)),
           (''token'', JStr (randomToken P)),
           (''workspaceDir'', JStr (cwd P)),
           (''rateLimit'', JObj [(''windowMs'', JNum (Fin 3000)), (''max'', JNum (Fin 20))]),
           (''wow'', JObj
              [(''processName'',
                  (if truthy wow \<and> truthy (get (the wow) ''processName'')
                   then the (get (the wow) ''processName'') else JStr ''WowClassic.exe'')),
               (''folders'', JObj
                  [(''addons'', orElse (get wowFolders ''addons'')
                      (JStr (pathJoin P [wowBase, ''Interface'', ''AddOns'']))),
                   (''logs'', orElse (get wowFolders ''logs'')
                      (JStr (pathJoin P [wowBase, ''Logs'']))),
                   (''wtf'', orElse (get wowFolders ''wtf'')
                      (JStr (pathJoin P [wowBase, ''WTF''])))])]),
           (''logging'', JObj
              [(''enabled'', JBool (getChain logging ''enabled'' \<noteq> Some (JBool False))),
               (''dir'', (if isString (getChain logging ''dir'')
                          then the (getChain logging ''dir'') else JStr [])),
               (''maxFiles'', (if isInteger (getChain logging ''maxFiles'')
                               then the (getChain logging ''maxFiles'') else JNum (Fin 14)))]),
           (''launchers'', getDefaultLaunchers P oldConfig),
           (''profiles'', JArr getDefaultProfiles),
           (''tiles'', JArr getDefaultTiles)]))"

section \<open>Profiles and tiles of a configuration\<close>

text \<open>One page of a profile: reading \<open>x.id\<close> on a null page throws.\<close>

definition normalizePage :: "platform \<Rightarrow> json \<Rightarrow> json option" where
  "normalizePage P x =
     (if x = JNull then None
      else Some (obj_str [(''id'', trim (strOr P (get x ''id''))),
                          (''label'', trim (strOr P (get x ''label'')))]))"

fun mapM :: "('a \<Rightarrow> 'b option) \<Rightarrow> 'a list \<Rightarrow> 'b list option" where
  "mapM f [] = Some []"
| "mapM f (x # xs) = (case f x of None \<Rightarrow> None
     | Some y \<Rightarrow> (case mapM f xs of None \<Rightarrow> None | Some ys \<Rightarrow> Some (y # ys)))"

definition pageKept :: "json \<Rightarrow> bool" where
  "pageKept x = (get x ''id'' \<noteq> Some (JStr []) \<and> get x ''label'' \<noteq> Some (JStr []))"

text \<open>The body of the loop of \<open>normalizeProfiles\<close> for one entry: \<open>Some None\<close> when the
  entry is skipped, \<open>Some (Some p)\<close> when it is pushed, \<open>None\<close> when it throws.\<close>

definition normalizeProfile :: "platform \<Rightarrow> json \<Rightarrow> json option option" where
  "normalizeProfile P p =
     (if \<not> truthy (Some p) \<or> \<not> isObject (Some p) then Some None
      else
        let id = trim (strOr P (get p ''id''));
            label = trim (strOr P (get p ''label''))
        in if id = [] \<or> label = [] then Some None
        else
          (case (case get p ''pages'' of
                   Some (JArr (x # xs)) \<Rightarrow>
                     map_option (filter pageKept) (mapM (normalizePage P) (x # xs))
                 | _ \<Rightarrow> Some [mainPage]) of
             None \<Rightarrow> None
           | Some pages \<Rightarrow>
               Some (Some (JObj [(''id'', JStr id), (''label'', JStr label),
                    (''pages'', JArr (if pages \<noteq> [] then pages else [mainPage]))]))))"

fun normalizeProfiles_loop :: "platform \<Rightarrow> json list \<Rightarrow> json list \<Rightarrow> json list option" where
  "normalizeProfiles_loop P out [] = Some out"
| "normalizeProfiles_loop P out (p # rest) =
     (case normalizeProfile P p of
        None \<Rightarrow> None
      | Some None \<Rightarrow> normalizeProfiles_loop P out rest
      | Some (Some q) \<Rightarrow> normalizeProfiles_loop P (out @ [q]) rest)"

definition normalizeProfiles :: "platform \<Rightarrow> json option \<Rightarrow> json list option" where
  "normalizeProfiles P input =
     (case input of
        Some (JArr (p # ps)) \<Rightarrow>
          (case normalizeProfiles_loop P [] (p # ps) of
             None \<Rightarrow> None
           | Some out \<Rightarrow> Some (if out \<noteq> [] then out else getDefaultProfiles))
      | _ \<Rightarrow> Some getDefaultProfiles)"

text \<open>A JavaScript \<open>Map\<close> or object as an association list in insertion order: setting a
  key that is present replaces its value in place, a new key goes to the end.\<close>

fun setProp :: "string \<Rightarrow> 'v \<Rightarrow> (string \<times> 'v) list \<Rightarrow> (string \<times> 'v) list" where
  "setProp k v [] = [(k, v)]"
| "setProp k v ((k', v') # rest) =
     (if k' = k then (k, v) # rest else (k', v') # setProp k v rest)"

definition tileId :: "json \<Rightarrow> string" where
  "tileId t = (case get t ''id'' of Some (JStr s) \<Rightarrow> s | _ \<Rightarrow> [])"

fun collectTiles :: "platform \<Rightarrow> (string \<times> json) list \<Rightarrow> json list \<Rightarrow> (string \<times> json) list" where
  "collectTiles P byId [] = byId"
| "collectTiles P byId (raw # rest) =
     (let t = normalizeTile P raw in
      if t = JNull then collectTiles P byId rest
      else collectTiles P (setProp (tileId t) t byId) rest)"

fun addMissing :: "(string \<times> json) list \<Rightarrow> json list \<Rightarrow> (string \<times> json) list" where
  "addMissing byId [] = byId"
| "addMissing byId (def # rest) =
     (if tileId def \<in> fst ` set byId then addMissing byId rest
      else addMissing (setProp (tileId def) def byId) rest)"

definition ensureBuiltinTiles :: "platform \<Rightarrow> json option \<Rightarrow> json list" where
  "ensureBuiltinTiles P inputTiles =
     map snd (addMissing
       (collectTiles P [] (case inputTiles of Some (JArr xs) \<Rightarrow> xs | _ \<Rightarrow> []))
       getDefaultTiles)"


section \<open>Merging a configuration with the defaults\<close>

text \<open>\<open>expandEnv\<close> replaces every \<open>%NAME%\<close> (a non-empty name without a percent sign)
  by the value of the environment variable, or by nothing when it is unset.\<close>

function expandEnv :: "platform \<Rightarrow> string \<Rightarrow> string" where
  "expandEnv P [] = []"
| "expandEnv P (c # cs) =
     (if c = CHR ''%'' \<and> takeWhile (\<lambda>d. d \<noteq> CHR ''%'') cs \<noteq> []
         \<and> dropWhile (\<lambda>d. d \<noteq> CHR ''%'') cs \<noteq> []
      then envOr P (takeWhile (\<lambda>d. d \<noteq> CHR ''%'') cs) []
             @ expandEnv P (tl (dropWhile (\<lambda>d. d \<noteq> CHR ''%'') cs))
      else c # expandEnv P cs)"
  by pat_completeness auto
termination
proof (relation "measure (\<lambda>(P, s). length s)")
  fix P :: platform and c :: char and cs :: string
  have "length (tl (dropWhile (\<lambda>d. d \<noteq> CHR ''%'') cs)) \<le> length cs"
    using length_dropWhile_le [of "\<lambda>d. d \<noteq> CHR ''%''" cs] by simp
  then show "((P, tl (dropWhile (\<lambda>d. d \<noteq> CHR ''%'') cs)), (P, c # cs))
      \<in> measure (\<lambda>(P, s). length s)"
    by simp
qed simp_all

fun isFiniteNum :: "jsnum \<Rightarrow> bool" where
  "isFiniteNum (Fin r) = True"
| "isFiniteNum _ = False"

text \<open>\<open>Number(v)\<close>: an array or an object is converted to a string first.\<close>

fun toNumber :: "platform \<Rightarrow> json option \<Rightarrow> jsnum" where
  "toNumber P None = NaN"
| "toNumber P (Some JNull) = Fin 0"
| "toNumber P (Some (JBool b)) = Fin (if b then 1 else 0)"
| "toNumber P (Some (JNum n)) = n"
| "toNumber P (Some (JStr s)) = strToNum P s"
| "toNumber P (Some v) = strToNum P (toStr P v)"

text \<open>\<open>Number.isFinite(n) ? Math.max(lo, Math.min(hi, Math.floor(n))) : fallback\<close>; the
  rate limit has no upper bound.\<close>

fun clampFloor :: "rat \<Rightarrow> rat option \<Rightarrow> jsnum \<Rightarrow> json \<Rightarrow> json" where
  "clampFloor lo None (Fin r) fallback = JNum (Fin (max lo (of_int \<lfloor>r\<rfloor>)))"
| "clampFloor lo (Some hi) (Fin r) fallback = JNum (Fin (max lo (min hi (of_int \<lfloor>r\<rfloor>))))"
| "clampFloor lo hi _ fallback = fallback"

text \<open>Reading a property that the object is known to have.\<close>

definition rd :: "json \<Rightarrow> string \<Rightarrow> json" where
  "rd v k = the (get v k)"

text \<open>A property whose value may be undefined: JSON leaves it out.\<close>

fun propOpt :: "string \<Rightarrow> json option \<Rightarrow> (string \<times> json) list" where
  "propOpt k None = []"
| "propOpt k (Some v) = [(k, v)]"

fun digitChar :: "nat \<Rightarrow> char" where
  "digitChar d = char_of (48 + d)"

fun showNat :: "nat \<Rightarrow> string" where
  "showNat n = (if n < 10 then [digitChar n] else showNat (n div 10) @ [digitChar (n mod 10)])"

text \<open>\<open>Object.entries\<close> of an object or an array.\<close>

fun entries :: "json \<Rightarrow> (string \<times> json) list" where
  "entries (JObj kvs) = kvs"
| "entries (JArr xs) = zip (map showNat [0..<length xs]) xs"
| "entries _ = []"

text \<open>The spread \<open>...(v || [])\<close>: an array gives its elements, a string its characters,
  any other truthy value is not iterable and the spread throws.\<close>

fun spread :: "json option \<Rightarrow> json list option" where
  "spread (Some (JArr xs)) = Some xs"
| "spread (Some (JStr s)) = Some (map (\<lambda>c. JStr [c]) s)"
| "spread v = (if truthy v then None else Some [])"

fun mergeLaunchers ::
  "(string \<times> json) list \<Rightarrow> (string \<times> json) list \<Rightarrow> (string \<times> json) list option" where
  "mergeLaunchers merged [] = Some merged"
| "mergeLaunchers merged ((key, val) # rest) =
     (if \<not> truthy (Some val) \<or> \<not> isObject (Some val) then mergeLaunchers merged rest
      else
        let old = (if truthy (map_of merged key) then the (map_of merged key)
                   else JObj [(''label'', JStr key), (''path'', JStr []),
                              (''candidates'', JArr [])])
        in case (spread (get old ''candidates''), spread (get val ''candidates'')) of
             (Some oldC, Some newC) \<Rightarrow>
               mergeLaunchers
                 (setProp key
                    (JObj (propOpt ''label''
                             (if nonBlankStr (get val ''label'') \<noteq> None
                              then get val ''label'' else get old ''label'')
                           @ propOpt ''path''
                               (if isString (get val ''path'') then get val ''path''
                                else get old ''path'')
                           @ [(''candidates'', JArr (map JStr (uniq (oldC @ newC))))]))
                    merged)
                 rest
           | _ \<Rightarrow> None)"


text \<open>\<open>autodetectLaunchers\<close> for one launcher: the path is kept (expanded) when it
  names a file, else it becomes the first candidate that exists.\<close>

definition autodetectLauncher :: "platform \<Rightarrow> json \<Rightarrow> json option" where
  "autodetectLauncher P launcher =
     (if \<not> truthy (Some launcher) \<or> \<not> isObject (Some launcher) then Some launcher
      else
        let current = expandEnv P (strOr P (get launcher ''path'')) in
        if current \<noteq> [] \<and> fileExists P current
        then Some (JObj (setProp ''path'' (JStr current) (entries launcher)))
        else
          (case (case get launcher ''candidates'' of
                   Some (JArr xs) \<Rightarrow> Some xs
                 | v \<Rightarrow> if truthy v then None else Some []) of
             None \<Rightarrow> None
           | Some cands \<Rightarrow>
               (case find (fileExists P)
                       (uniq (map (\<lambda>c. JStr (case c of JStr s \<Rightarrow> expandEnv P s | _ \<Rightarrow> []))
                                cands)) of
                  None \<Rightarrow> Some launcher
                | Some found \<Rightarrow>
                    if found \<noteq> [] \<and> get launcher ''path'' \<noteq> Some (JStr found)
                    then Some (JObj (setProp ''path'' (JStr found) (entries launcher)))
                    else Some launcher)))"

fun autodetect_loop ::
  "platform \<Rightarrow> string \<Rightarrow> (string \<times> json) list \<Rightarrow> (string \<times> json) list option" where
  "autodetect_loop P oneKey [] = Some []"
| "autodetect_loop P oneKey ((key, launcher) # rest) =
     (case (if oneKey \<noteq> [] \<and> key \<noteq> oneKey then Some launcher
            else autodetectLauncher P launcher) of
        None \<Rightarrow> None
      | Some l \<Rightarrow> map_option ((#) (key, l)) (autodetect_loop P oneKey rest))"

text \<open>The launchers of the configuration after \<open>autodetectLaunchers(config, oneKey)\<close>.\<close>

definition autodetectLaunchers :: "platform \<Rightarrow> json \<Rightarrow> string \<Rightarrow> json option" where
  "autodetectLaunchers P launchers oneKey =
     (if \<not> truthy (Some launchers) \<or> \<not> isObject (Some launchers) then Some launchers
      else map_option JObj (autodetect_loop P oneKey (entries launchers)))"

text \<open>The fields of the merged configuration, one definition for each block of
  \<open>mergeWithDefaults\<close>; \<open>base\<close> is the default configuration and \<open>cfg\<close> the raw
  value, or \<open>{}\<close> when that is not an object.\<close>

definition mergeHost :: "json \<Rightarrow> json \<Rightarrow> json" where
  "mergeHost base cfg =
     (case nonBlankStr (get cfg ''host'') of Some h \<Rightarrow> JStr (trim h) | None \<Rightarrow> rd base ''host'')"

definition mergePort :: "json \<Rightarrow> json \<Rightarrow> json" where
  "mergePort base cfg =
     (case get cfg ''port'' of
        Some (JNum (Fin r)) \<Rightarrow>
          if isInteger (Some (JNum (Fin r))) \<and> r > 0 \<and> r \<le> 65535 then JNum (Fin r)
          else rd base ''port''
      | _ \<Rightarrow> rd base ''port'')"

definition mergeToken :: "json \<Rightarrow> json \<Rightarrow> json" where
  "mergeToken base cfg =
     (case get cfg ''token'' of
        Some (JStr t) \<Rightarrow> if length t \<ge> 12 then JStr t else rd base ''token''
      | _ \<Rightarrow> rd base ''token'')"

definition mergeWorkspaceDir :: "json \<Rightarrow> json \<Rightarrow> json" where
  "mergeWorkspaceDir base cfg =
     (case nonBlankStr (get cfg ''workspaceDir'') of
        Some d \<Rightarrow> JStr (trim d) | None \<Rightarrow> rd base ''workspaceDir'')"

definition mergeRateLimit :: "platform \<Rightarrow> json \<Rightarrow> json \<Rightarrow> json" where
  "mergeRateLimit P base cfg =
     (let rl = get cfg ''rateLimit'' in
      if truthy rl \<and> isObject rl
      then JObj
        [(''windowMs'', clampFloor 250 None (toNumber P (get (the rl) ''windowMs''))
                          (rd (rd base ''rateLimit'') ''windowMs'')),
         (''max'', clampFloor 3 None (toNumber P (get (the rl) ''max''))
                     (rd (rd base ''rateLimit'') ''max''))]
      else rd base ''rateLimit'')"

definition mergeWow :: "json \<Rightarrow> json \<Rightarrow> json" where
  "mergeWow base cfg =
     (let w = get cfg ''wow''; baseWow = rd base ''wow'' in
      if truthy w \<and> isObject w
      then JObj
        [(''processName'',
            (case nonBlankStr (get (the w) ''processName'') of
               Some n \<Rightarrow> JStr (trim n) | None \<Rightarrow> rd baseWow ''processName'')),
         (''folders'', JObj (map
            (\<lambda>k. (k, (if isString (getChain (get (the w) ''folders'') k)
                        then the (getChain (get (the w) ''folders'') k)
                        else rd (rd baseWow ''folders'') k)))
            [''addons'', ''logs'', ''wtf'']))]
      else baseWow)"

definition mergeLogging :: "platform \<Rightarrow> json \<Rightarrow> json \<Rightarrow> json" where
  "mergeLogging P base cfg =
     (let lg = get cfg ''logging''; baseLogging = rd base ''logging'' in
      if truthy lg \<and> isObject lg
      then JObj
        [(''enabled'', JBool (get (the lg) ''enabled'' \<noteq> Some (JBool False))),
         (''dir'', (if isString (get (the lg) ''dir'') then the (get (the lg) ''dir'')
                    else rd baseLogging ''dir'')),
         (''maxFiles'', clampFloor 3 (Some 90) (toNumber P (get (the lg) ''maxFiles''))
                          (rd baseLogging ''maxFiles''))]
      else baseLogging)"

definition mergedLaunchers :: "json \<Rightarrow> json \<Rightarrow> json option" where
  "mergedLaunchers base cfg =
     (let ls = get cfg ''launchers'' in
      if truthy ls \<and> isObject ls
      then map_option JObj (mergeLaunchers (entries (rd base ''launchers'')) (entries (the ls)))
      else Some (rd base ''launchers''))"

definition mergeWithDefaults :: "platform \<Rightarrow> json \<Rightarrow> json option" where
  "mergeWithDefaults P raw =
     do {
       base \<leftarrow> createDefaultConfig P raw;
       let cfg = (if truthy (Some raw) \<and> isObject (Some raw) then raw else JObj []);
       merged \<leftarrow> mergedLaunchers base cfg;
       profiles \<leftarrow> normalizeProfiles P (get cfg ''profiles'');
       let tiles = ensureBuiltinTiles P (get cfg ''tiles'');
       launchers \<leftarrow> (if DISABLE_AUTODETECT P then Some merged
                      else autodetectLaunchers P merged []);
       Some (JObj
         [(''host'', mergeHost base cfg),
          (''port'', mergePort base cfg),
          (''token'', mergeToken base cfg),
          (''workspaceDir'', mergeWorkspaceDir base cfg),
          (''rateLimit'', mergeRateLimit P base cfg),
          (''wow'', mergeWow base cfg),
          (''logging'', mergeLogging P base cfg),
          (''launchers'', launchers),
          (''profiles'', JArr profiles),
          (''tiles'', JArr tiles)])
     }"

text \<open>A platform for evaluating examples: numbers print as \<open>0\<close>, no string parses as a
  number, a URL parses when it has no blank and starts with \<open>http://\<close> or
  \<open>https://\<close>, paths are joined and split at backslashes, the extension starts at the
  last dot, labels compare equal, the environment is empty and no file exists.\<close>

definition exampleBasename :: "string \<Rightarrow> string" where
  "exampleBasename p = rev (takeWhile (\<lambda>c. c \<noteq> CHR 0x5C) (rev p))"

definition exampleExtname :: "string \<Rightarrow> string" where
  "exampleExtname p =
     (let b = exampleBasename p in
      if CHR ''.'' \<in> set b then CHR ''.'' # rev (takeWhile (\<lambda>c. c \<noteq> CHR ''.'') (rev b))
      else [])"

definition examplePlatform :: platform where
  "examplePlatform = \<lparr>
     numToStr = (\<lambda>n. ''0''),
     strToNum = (\<lambda>s. NaN),
     parseUrl = (\<lambda>s. if \<exists>c \<in> set s. isSpace c then None
                      else if startsWith s ''https://'' then Some (''https:'', s)
                      else if startsWith s ''http://'' then Some (''http:'', s)
                      else None),
     pathJoin = join_with [CHR 0x5C],
     processEnv = (\<lambda>k. None),
     cwd = ''C:'' @ [CHR 0x5C] @ ''work'',
     fileExists = (\<lambda>p. False),
     dirExists = (\<lambda>p. False),
     basename = exampleBasename,
     basenameWithout = (\<lambda>p e. take (length (exampleBasename p) - length e) (exampleBasename p)),
     extname = exampleExtname,
     localeCompare = (\<lambda>a b. 0),
     jsonStringify = (\<lambda>v. ''{}''),
     randomToken = replicate 96 (CHR ''A''),
     DISABLE_AUTODETECT = False \<rparr>"

section \<open>Program resolver\<close>

text \<open>An entry of the program index, as \<open>buildProgramIndex\<close> stores it.\<close>

record program =
  label :: string
  path :: string
  source :: string
  ext :: string
  fileName :: string
  labelLower :: string
  fileLower :: string
  pathLower :: string

definition APP_FILE_EXTENSIONS :: "string list" where
  "APP_FILE_EXTENSIONS = [''.exe'', ''.lnk'', ''.bat'', ''.cmd'', ''.com'']"

definition toLowerChar :: "char \<Rightarrow> char" where
  "toLowerChar c =
     (if (65::int) \<le> of_char c \<and> of_char c \<le> (90::int) then char_of (of_char c + (32::int))
      else c)"

definition toLowerCase :: "string \<Rightarrow> string" where
  "toLowerCase s = map toLowerChar s"

text \<open>\<open>s.split(/\s+/).filter(Boolean)\<close>.\<close>

fun splitWords :: "string \<Rightarrow> string \<Rightarrow> string list" where
  "splitWords cur [] = (if cur = [] then [] else [cur])"
| "splitWords cur (c # cs) =
     (if isSpace c then (if cur = [] then [] else [cur]) @ splitWords [] cs
      else splitWords (cur @ [c]) cs)"

text \<open>\<open>s.split(sep)\<close> for a separator character.\<close>

fun splitOn :: "char \<Rightarrow> string \<Rightarrow> string \<Rightarrow> string list" where
  "splitOn sep cur [] = [cur]"
| "splitOn sep cur (c # cs) =
     (if c = sep then cur # splitOn sep [] cs else splitOn sep (cur @ [c]) cs)"

definition unquoteWrapped :: "string \<Rightarrow> string" where
  "unquoteWrapped v =
     (let text = trim v in
      if text \<noteq> [] \<and> ((hd text = CHR 0x22 \<and> last text = CHR 0x22)
                       \<or> (hd text = CHR 0x27 \<and> last text = CHR 0x27))
      then trim (butlast (tl text)) else text)"

definition isAppLaunchFilePath :: "platform \<Rightarrow> string \<Rightarrow> bool" where
  "isAppLaunchFilePath P p = (toLowerCase (extname P p) \<in> set APP_FILE_EXTENSIONS)"

definition programSourcePriority :: "string \<Rightarrow> int" where
  "programSourcePriority src =
     (if src = ''launcherPath'' then 120
      else if src = ''launcherCandidate'' then 95
      else if src = ''startMenu'' then 80
      else if src = ''localPrograms'' then 70
      else if src = ''programFiles'' then 60
      else if src = ''desktop'' then 45
      else 20)"

text \<open>The points one token of the query adds to the score of an entry.\<close>

definition tokenScore :: "program \<Rightarrow> string \<Rightarrow> int" where
  "tokenScore e token =
     (if labelLower e = token then 220
      else if startsWith (labelLower e) token then 120
      else if str_includes (labelLower e) token then 70 else 0)
     + (if fileLower e = token \<or> fileLower e = token @ ''.exe'' \<or> fileLower e = token @ ''.lnk''
        then 120
        else if startsWith (fileLower e) token then 65
        else if str_includes (fileLower e) token then 30 else 0)
     + (if str_includes (pathLower e) (CHR 0x5C # token) then 12 else 0)"

definition scoreProgram :: "program \<Rightarrow> string \<Rightarrow> int" where
  "scoreProgram e query =
     (let q = toLowerCase (trim query) in
      if q = [] then programSourcePriority (source e)
      else programSourcePriority (source e) + sum_list (map (tokenScore e) (splitWords [] q)))"

text \<open>The comparator of the ranking: higher score first, then the label's collation.
  The sort is stable.\<close>

definition rankCompare :: "platform \<Rightarrow> program \<times> int \<Rightarrow> program \<times> int \<Rightarrow> int" where
  "rankCompare P a b =
     (if snd b - snd a \<noteq> 0 then snd b - snd a else localeCompare P (label (fst a)) (label (fst b)))"

fun insertRow :: "platform \<Rightarrow> program \<times> int \<Rightarrow> (program \<times> int) list \<Rightarrow> (program \<times> int) list" where
  "insertRow P x [] = [x]"
| "insertRow P x (y # ys) = (if rankCompare P x y \<le> 0 then x # y # ys else y # insertRow P x ys)"

definition sortRows :: "platform \<Rightarrow> (program \<times> int) list \<Rightarrow> (program \<times> int) list" where
  "sortRows P rows = foldr (insertRow P) rows []"

text \<open>\<open>rankPrograms\<close>, on the entries \<open>buildProgramIndex()\<close> returns.\<close>

definition rankPrograms ::
  "platform \<Rightarrow> program list \<Rightarrow> string \<Rightarrow> nat \<Rightarrow> bool \<Rightarrow> (program \<times> int) list" where
  "rankPrograms P index query limit includeWeakMatches =
     (let maxRows = max 1 (min 100 (if limit = 0 then 25 else limit));
          q = toLowerCase (safeTrim P (Some (JStr query)) 120)
      in take maxRows (sortRows P
           (filter (\<lambda>row. q = [] \<or> includeWeakMatches
                          \<or> snd row > programSourcePriority (source (fst row)))
              (map (\<lambda>e. (e, scoreProgram e q)) index))))"

fun chooseBestProgramMatch :: "(program \<times> int) list \<Rightarrow> string" where
  "chooseBestProgramMatch [] = []"
| "chooseBestProgramMatch [first] = path (fst first)"
| "chooseBestProgramMatch (first # second # rest) =
     (if snd first \<ge> snd second + 80 then path (fst first)
      else if snd first \<ge> snd second + 55 \<and> source (fst first) = ''launcherPath''
        then path (fst first)
      else [])"

definition findCommandOnPath :: "platform \<Rightarrow> string \<Rightarrow> string" where
  "findCommandOnPath P input =
     (let raw = safeTrim P (Some (JStr input)) 120 in
      if raw = [] \<or> CHR 0x5C \<in> set raw \<or> CHR ''/'' \<in> set raw \<or> CHR '':'' \<in> set raw then []
      else
        let pathDirs = filter (\<lambda>x. x \<noteq> [] \<and> dirExists P x)
                         (map trim (splitOn (CHR '';'') [] (envOr P ''PATH'' [])));
            names = (if CHR ''.'' \<in> set raw then [raw]
                     else [raw @ ''.exe'', raw @ ''.cmd'', raw @ ''.bat'', raw @ ''.com''])
        in case find (fileExists P)
                  (concat (map (\<lambda>dir. map (\<lambda>name. pathJoin P [dir, name]) names) pathDirs)) of
             None \<Rightarrow> []
           | Some p \<Rightarrow> p)"

definition isExactMatch :: "platform \<Rightarrow> string \<Rightarrow> program \<Rightarrow> bool" where
  "isExactMatch P lowered x =
     (toLowerCase (label x) = lowered
      \<or> toLowerCase (basename P (path x)) = lowered
      \<or> toLowerCase (basenameWithout P (path x) (extname P (path x))) = lowered)"

definition isExeNameMatch :: "string \<Rightarrow> program \<Rightarrow> bool" where
  "isExeNameMatch lowered x = (fileLower x = lowered \<or> fileLower x = lowered @ ''.exe'')"

definition resolveProgramPath :: "platform \<Rightarrow> program list \<Rightarrow> string \<Rightarrow> string" where
  "resolveProgramPath P index input =
     (let raw = unquoteWrapped (safeTrim P (Some (JStr input)) (nat MAX_PATH_LEN)) in
      if raw = [] then []
      else
        let expanded = expandEnv P raw in
        if fileExists P expanded \<and> isAppLaunchFilePath P expanded then expanded
        else if findCommandOnPath P expanded \<noteq> [] then findCommandOnPath P expanded
        else
          let ranked = rankPrograms P index expanded 8 True;
              candidates = map fst ranked;
              lowered = toLowerCase expanded
          in if ranked = [] then []
             else case find (isExactMatch P lowered) candidates of
                 Some exact \<Rightarrow> path exact
               | None \<Rightarrow>
                   (case find (isExeNameMatch lowered) candidates of
                      Some byExeName \<Rightarrow> path byExeName
                    | None \<Rightarrow> chooseBestProgramMatch ranked))"

section \<open>Admission layer\<close>

text \<open>
  A request as it reaches a route (Express has parsed the query string and the body):
  the \<open>x-token\<close> header, \<open>req.query.token\<close>, \<open>req.ip\<close>, the socket's remote
  address, the body, the request id and the clock reading \<open>Date.now()\<close> while the
  request is handled.
\<close>

record request =
  header_x_token :: "string option"
  query_token :: "json option"
  req_ip :: "string option"
  remoteAddress :: "string option"
  body :: "json option"
  requestId :: string
  dateNow :: int

record response =
  status :: nat
  headers :: "(string \<times> string) list"
  payload :: json

text \<open>The per-client entry \<open>{ t0, n }\<close> of \<open>rateState\<close>.\<close>

datatype rate = Rate (rate_t0: int) (rate_n: nat)

text \<open>The mutable state of the process: the configuration, the rate limiter's map (in
  insertion order) and its sweep counter.\<close>

record server =
  config :: json
  rateState :: "(string \<times> rate) list"
  rateSweepCounter :: nat

text \<open>What a middleware does: call \<open>next()\<close> or send a response.\<close>

datatype step = Next | Respond response

definition errorJson :: "nat \<Rightarrow> string \<Rightarrow> response" where
  "errorJson code msg =
     \<lparr>status = code, headers = [], payload = JObj [(''ok'', JBool False), (''error'', JStr msg)]\<rparr>"

text \<open>Modelled from the spec: \<open>crypto.timingSafeEqual\<close> is Node's, not the repository's.
  It compares two buffers of one length byte by byte without leaving early: the
  differences of all byte pairs are accumulated and tested once at the end.\<close>

definition timingSafeEqual :: "nat list \<Rightarrow> nat list \<Rightarrow> bool" where
  "timingSafeEqual a b = (fold (\<lambda>(x, y) acc. or acc (xor x y)) (zip a b) 0 = 0)"

text \<open>\<open>Buffer.from(s, "utf8")\<close> of a byte string.\<close>

definition utf8 :: "string \<Rightarrow> nat list" where
  "utf8 s = map of_char s"

definition secureEqualText :: "platform \<Rightarrow> json option \<Rightarrow> json option \<Rightarrow> bool" where
  "secureEqualText P a b =
     (let aBuf = utf8 (strOr P a); bBuf = utf8 (strOr P b) in
      if length aBuf \<noteq> length bBuf then False else timingSafeEqual aBuf bBuf)"

text \<open>The token a request presents: the header, else the query parameter.\<close>

definition presentedToken :: "platform \<Rightarrow> request \<Rightarrow> string" where
  "presentedToken P req =
     (let header = safeTrim P (map_option JStr (header_x_token req)) 512;
          query = (if isString (query_token req) then safeTrim P (query_token req) 512 else [])
      in if header \<noteq> [] then header else query)"

definition requireToken :: "platform \<Rightarrow> server \<Rightarrow> request \<Rightarrow> step" where
  "requireToken P srv req =
     (let token = presentedToken P req in
      if token = [] then Respond (errorJson 401 ''unauthorized: missing token'')
      else if \<not> secureEqualText P (Some (JStr token)) (get (config srv) ''token'')
        then Respond (errorJson 401 ''unauthorized: token mismatch'')
      else Next)"

text \<open>Arithmetic on numbers that may be infinite or NaN: \<open>Math.max(lo, v)\<close>,
  \<open>x > v\<close>, \<open>x < v\<close> and \<open>now - v * 4\<close>.\<close>

fun maxNum :: "rat \<Rightarrow> jsnum \<Rightarrow> jsnum" where
  "maxNum lo (Fin r) = Fin (max lo r)"
| "maxNum lo PosInf = PosInf"
| "maxNum lo NegInf = Fin lo"
| "maxNum lo NaN = NaN"

fun gtNum :: "rat \<Rightarrow> jsnum \<Rightarrow> bool" where
  "gtNum x (Fin r) = (x > r)"
| "gtNum x NegInf = True"
| "gtNum x _ = False"

fun ltNum :: "rat \<Rightarrow> jsnum \<Rightarrow> bool" where
  "ltNum x (Fin r) = (x < r)"
| "ltNum x PosInf = True"
| "ltNum x _ = False"

fun sweepCutoff :: "int \<Rightarrow> jsnum \<Rightarrow> jsnum" where
  "sweepCutoff t (Fin w) = Fin (of_int t - w * 4)"
| "sweepCutoff t PosInf = NegInf"
| "sweepCutoff t NegInf = PosInf"
| "sweepCutoff t NaN = NaN"

text \<open>\<open>Number(config.rateLimit?.k || fallback)\<close>.\<close>

definition rateSetting :: "platform \<Rightarrow> json \<Rightarrow> string \<Rightarrow> rat \<Rightarrow> jsnum" where
  "rateSetting P cfg k fallback =
     toNumber P (Some (orElse (getChain (get cfg ''rateLimit'') k) (JNum (Fin fallback))))"

definition clientIp :: "request \<Rightarrow> string" where
  "clientIp req =
     (case req_ip req of
        Some a \<Rightarrow> if a \<noteq> [] then a
                  else (case remoteAddress req of
                          Some b \<Rightarrow> if b \<noteq> [] then b else ''unknown'' | None \<Rightarrow> ''unknown'')
      | None \<Rightarrow> (case remoteAddress req of
                   Some b \<Rightarrow> if b \<noteq> [] then b else ''unknown'' | None \<Rightarrow> ''unknown''))"

definition windowMsOf :: "platform \<Rightarrow> server \<Rightarrow> jsnum" where
  "windowMsOf P srv = maxNum 250 (rateSetting P (config srv) ''windowMs'' 3000)"

definition maxOf :: "platform \<Rightarrow> server \<Rightarrow> jsnum" where
  "maxOf P srv = maxNum 3 (rateSetting P (config srv) ''max'' 20)"

text \<open>The client's entry after the request is counted: a missing or expired entry
  starts a new window at the time of the request.\<close>

definition nextRate :: "platform \<Rightarrow> server \<Rightarrow> request \<Rightarrow> rate" where
  "nextRate P srv req =
     (let t = dateNow req;
          state0 = (case map_of (rateState srv) (clientIp req) of
                      Some s \<Rightarrow> s | None \<Rightarrow> Rate t 0);
          state1 = (if gtNum (of_int (t - rate_t0 state0)) (windowMsOf P srv) then Rate t 0
                    else state0)
      in Rate (rate_t0 state1) (rate_n state1 + 1))"

definition rateLimit :: "platform \<Rightarrow> server \<Rightarrow> request \<Rightarrow> step \<times> server" where
  "rateLimit P srv req =
     (let state = nextRate P srv req;
          states = setProp (clientIp req) state (rateState srv);
          counter = rateSweepCounter srv + 1;
          sweep = (counter \<ge> 200 \<or> length states > 5000);
          srv' = srv\<lparr>
            rateState :=
              (if sweep
               then filter (\<lambda>kv. \<not> ltNum (of_int (rate_t0 (snd kv)))
                                      (sweepCutoff (dateNow req) (windowMsOf P srv)))
                      states
               else states),
            rateSweepCounter := (if sweep then 0 else counter)\<rparr>
      in if gtNum (of_nat (rate_n state)) (maxOf P srv)
         then (Respond (errorJson 429 ''rate limited''), srv')
         else (Next, srv'))"

text \<open>The rate limiter on the requests of a list, one after the other.\<close>

fun rateLimitAll :: "platform \<Rightarrow> server \<Rightarrow> request list \<Rightarrow> step list \<times> server" where
  "rateLimitAll P srv [] = ([], srv)"
| "rateLimitAll P srv (r # rs) =
     (case rateLimit P srv r of
        (st, srv') \<Rightarrow> (case rateLimitAll P srv' rs of (sts, srv'') \<Rightarrow> (st # sts, srv'')))"

section \<open>Routes\<close>

datatype route =
    GetHealth | GetStatus | GetActions | GetBootstrap | GetSettings
  | PostSettingsLauncher | PostSettingsWowFolder | PostSettingsWowProcess
  | PostSettingsLogging | PostSettingsAutodetect | PostSettingsBrowse
  | GetPrograms | PostProgramsResolve | GetLogsRecent | PostIcon
  | GetTile | PostTilesUpsert | PostTilesDelete | PostRun

definition tilesOf :: "json \<Rightarrow> json list" where
  "tilesOf cfg = (case get cfg ''tiles'' of Some (JArr ts) \<Rightarrow> ts | _ \<Rightarrow> [])"

text \<open>The handler of \<open>POST /api/tiles/delete\<close>; \<open>persistOk\<close> says whether
  \<open>persistConfigSafe()\<close> succeeds.\<close>

definition tilesDelete :: "platform \<Rightarrow> bool \<Rightarrow> request \<Rightarrow> server \<Rightarrow> response \<times> server" where
  "tilesDelete P persistOk req srv =
     (let id = trim (strOr P (getChain (body req) ''id'')) in
      if id = [] then (errorJson 400 ''id fehlt'', srv)
      else case find (\<lambda>x. get x ''id'' = Some (JStr id)) (tilesOf (config srv)) of
          None \<Rightarrow> (errorJson 404 ''tile nicht gefunden'', srv)
        | Some tile \<Rightarrow>
            if truthy (get tile ''builtin'')
            then (errorJson 400 ''builtin tile kann nicht geloescht werden'', srv)
            else
              let srv' = srv\<lparr>config := JObj (setProp ''tiles''
                             (JArr (filter (\<lambda>x. get x ''id'' \<noteq> Some (JStr id))
                                      (tilesOf (config srv))))
                             (entries (config srv)))\<rparr>
              in if \<not> persistOk then (errorJson 500 ''config write failed'', srv')
                 else (\<lparr>status = 200, headers = [], payload = JObj [(''ok'', JBool True)]\<rparr>,
                       srv'))"

text \<open>The headers the global middleware sets before any route runs.\<close>

definition baseHeaders :: "request \<Rightarrow> (string \<times> string) list" where
  "baseHeaders req =
     [(''X-Content-Type-Options'', ''nosniff''),
      (''X-Frame-Options'', ''DENY''),
      (''Referrer-Policy'', ''no-referrer''),
      (''Cross-Origin-Opener-Policy'', ''same-origin''),
      (''Permissions-Policy'', ''camera=(), microphone=(), geolocation=()''),
      (''Content-Security-Policy'',
       ''default-src 'self'; img-src 'self' data: blob:; style-src 'self' 'unsafe-inline'; ''
       @ ''script-src 'self' 'unsafe-inline'; connect-src 'self'; object-src 'none'; ''
       @ ''frame-ancestors 'none'; base-uri 'self'' @ [CHR 0x27]),
      (''X-Request-Id'', requestId req),
      (''Cache-Control'', ''no-store'')]"

definition send :: "request \<Rightarrow> response \<Rightarrow> response" where
  "send req res = res\<lparr>headers := baseHeaders req @ headers res\<rparr>"

text \<open>Every route of the API is registered as \<open>app.METHOD(path, requireToken, rateLimit,
  handler)\<close>. The handlers other than the one of \<open>/api/tiles/delete\<close> are a parameter.\<close>

definition handlerOf ::
  "platform \<Rightarrow> bool \<Rightarrow> (route \<Rightarrow> request \<Rightarrow> server \<Rightarrow> response \<times> server)
     \<Rightarrow> route \<Rightarrow> request \<Rightarrow> server \<Rightarrow> response \<times> server" where
  "handlerOf P persistOk others r =
     (if r = PostTilesDelete then tilesDelete P persistOk else others r)"

definition api ::
  "platform \<Rightarrow> bool \<Rightarrow> (route \<Rightarrow> request \<Rightarrow> server \<Rightarrow> response \<times> server)
     \<Rightarrow> route \<Rightarrow> request \<Rightarrow> server \<Rightarrow> response \<times> server" where
  "api P persistOk others r req srv =
     (case requireToken P srv req of
        Respond res \<Rightarrow> (send req res, srv)
      | Next \<Rightarrow>
          (case rateLimit P srv req of
             (Respond res, srv') \<Rightarrow> (send req res, srv')
           | (Next, srv') \<Rightarrow>
               (case handlerOf P persistOk others r req srv' of
                  (res, srv'') \<Rightarrow> (send req res, srv''))))"

text \<open>The API on a list of requests, one after the other, and the \<open>Retry-After\<close>
  header of a response (header names are case-insensitive).\<close>

fun apiAll ::
  "platform \<Rightarrow> bool \<Rightarrow> (route \<Rightarrow> request \<Rightarrow> server \<Rightarrow> response \<times> server)
     \<Rightarrow> server \<Rightarrow> (route \<times> request) list \<Rightarrow> response list \<times> server" where
  "apiAll P persistOk others srv [] = ([], srv)"
| "apiAll P persistOk others srv ((r, req) # rest) =
     (case api P persistOk others r req srv of
        (res, srv') \<Rightarrow>
          (case apiAll P persistOk others srv' rest of (ress, srv'') \<Rightarrow> (res # ress, srv'')))"

definition retryAfter :: "response \<Rightarrow> string option" where
  "retryAfter res = map_of (map (\<lambda>kv. (toLowerCase (fst kv), snd kv)) (headers res)) ''retry-after''"

definition statusAndRetryAfter :: "response \<Rightarrow> nat \<times> string option" where
  "statusAndRetryAfter res = (status res, retryAfter res)"

section \<open>Persistence\<close>

text \<open>
  A file is named by its directory and its base name: \<open>path.dirname\<close> and
  \<open>path.basename\<close> are the two components and \<open>path.join(dir, name)\<close> pairs them.
  The disk maps file names to contents. Each write to the disk may fail; the fault says
  which one does.
\<close>

type_synonym filepath = "string \<times> string"

type_synonym disk = "filepath \<rightharpoonup> string"

datatype fault = NoFault | CopyFails | WriteFails | RenameFails

datatype io_error = IoError

text \<open>\<open>writeJsonAtomic\<close>: the text goes to a temporary file beside the target, which is
  then renamed over the target. A failure throws and leaves the disk as it is then.\<close>

definition tmpPath :: "filepath \<Rightarrow> string \<Rightarrow> string \<Rightarrow> filepath" where
  "tmpPath filePath pid stamp = (fst filePath, ''.'' @ snd filePath @ ''.tmp-'' @ pid @ ''-'' @ stamp)"

definition writeJsonAtomic ::
  "fault \<Rightarrow> string \<Rightarrow> string \<Rightarrow> filepath \<Rightarrow> string \<Rightarrow> disk \<Rightarrow> (io_error + unit) \<times> disk" where
  "writeJsonAtomic f pid stamp filePath text d =
     (if f = WriteFails then (Inl IoError, d)
      else
        let d1 = d(tmpPath filePath pid stamp \<mapsto> text) in
        if f = RenameFails then (Inl IoError, d1)
        else (Inr (), (d1(filePath \<mapsto> text))(tmpPath filePath pid stamp := None)))"

text \<open>\<open>persistConfig\<close>: the previous file is copied to \<open>.bak\<close> first (a failure of the
  copy is logged and ignored), then the configuration is written atomically.\<close>

definition persistConfig ::
  "platform \<Rightarrow> fault \<Rightarrow> string \<Rightarrow> string \<Rightarrow> filepath \<Rightarrow> json \<Rightarrow> disk \<Rightarrow> (io_error + unit) \<times> disk" where
  "persistConfig P f pid stamp CONFIG_PATH cfg d =
     (let backupPath = (fst CONFIG_PATH, snd CONFIG_PATH @ ''.bak'');
          d0 = (case d CONFIG_PATH of
                  Some old \<Rightarrow> if f = CopyFails then d else d(backupPath \<mapsto> old)
                | None \<Rightarrow> d)
      in writeJsonAtomic f pid stamp CONFIG_PATH (jsonStringify P cfg) d0)"

section \<open>Example inputs\<close>


text \<open>Configurations on which the merge throws: a profile whose page list holds null, and
  a launcher whose candidates are a number.\<close>

definition cfgNullPage :: json where
  "cfgNullPage =
     JObj [(''profiles'', JArr [JObj [(''id'', JStr ''a''), (''label'', JStr ''A''),
                                      (''pages'', JArr [JNull])]])]"

definition cfgBadCandidates :: json where
  "cfgBadCandidates =
     JObj [(''launchers'', JObj [(''vscode'', JObj [(''candidates'', JNum (Fin 5))])])]"

text \<open>A server whose rate limit is five requests per second, and a request of one client
  with a given token header and arrival time.\<close>

definition exampleServer :: server where
  "exampleServer = \<lparr>
     config = JObj [(''token'', JStr ''correct-horse-battery''),
                    (''rateLimit'', JObj [(''windowMs'', JNum (Fin 1000)),
                                          (''max'', JNum (Fin 5))]),
                    (''tiles'', JArr getDefaultTiles)],
     rateState = [],
     rateSweepCounter = 0 \<rparr>"

text \<open>Handlers that answer \<open>{ok: true}\<close> and leave the state alone.\<close>

definition exampleHandlers :: "route \<Rightarrow> request \<Rightarrow> server \<Rightarrow> response \<times> server" where
  "exampleHandlers r req srv =
     (\<lparr>status = 200, headers = [], payload = JObj [(''ok'', JBool True)]\<rparr>, srv)"

definition exampleRequest :: "string option \<Rightarrow> int \<Rightarrow> request" where
  "exampleRequest tok t = \<lparr>
     header_x_token = tok, query_token = None, req_ip = Some ''10.0.0.7'',
     remoteAddress = None, body = None, requestId = ''req'', dateNow = t \<rparr>"



section \<open>Reading a configuration\<close>


definition idOf :: "json \<Rightarrow> string" where
  "idOf v = (case get v ''id'' of Some (JStr s) \<Rightarrow> s | _ \<Rightarrow> [])"


definition pagesOf :: "json \<Rightarrow> json list" where
  "pagesOf p = (case get p ''pages'' of Some (JArr ps) \<Rightarrow> ps | _ \<Rightarrow> [])"




text \<open>The entries that the loop of \<open>normalizeProfiles\<close> pushes, in order.\<close>

definition keptProfiles :: "platform \<Rightarrow> json list \<Rightarrow> json list" where
  "keptProfiles P ps =
     concat (map (\<lambda>p. case normalizeProfile P p of Some (Some q) \<Rightarrow> [q] | _ \<Rightarrow> []) ps)"

text \<open>The pages that \<open>normalizeProfiles\<close> keeps of a page list without null: those whose
  trimmed id and label are not empty.\<close>

definition keptPages :: "platform \<Rightarrow> json list \<Rightarrow> json list" where
  "keptPages P pages =
     filter pageKept
       (map (\<lambda>x. obj_str [(''id'', trim (strOr P (get x ''id''))),
                           (''label'', trim (strOr P (get x ''label'')))]) pages)"




definition cleanStr :: "string \<Rightarrow> bool" where
  "cleanStr s = (s \<noteq> [] \<and> trim s = s)"

definition labelOf :: "json \<Rightarrow> string" where
  "labelOf v = (case get v ''label'' of Some (JStr s) \<Rightarrow> s | _ \<Rightarrow> [])"

definition cleanPage :: "json \<Rightarrow> bool" where
  "cleanPage pg =
     (pg = JObj [(''id'', JStr (idOf pg)), (''label'', JStr (labelOf pg))]
      \<and> cleanStr (idOf pg) \<and> cleanStr (labelOf pg))"

definition cleanProfile :: "json \<Rightarrow> bool" where
  "cleanProfile p =
     (p = JObj [(''id'', JStr (idOf p)), (''label'', JStr (labelOf p)),
                (''pages'', JArr (pagesOf p))]
      \<and> cleanStr (idOf p) \<and> cleanStr (labelOf p)
      \<and> pagesOf p \<noteq> [] \<and> list_all cleanPage (pagesOf p))"


text \<open>An index of two entries that score alike on the text of the query \<open>note\<close>: one
  from a configured launcher path, one from the Start Menu.\<close>

definition notepadLauncher :: program where
  "notepadLauncher = \<lparr>
     label = ''Notepad'',
     path = ''C:'' @ [CHR 0x5C] @ ''apps'' @ [CHR 0x5C] @ ''notepad.exe'',
     source = ''launcherPath'', ext = ''.exe'', fileName = ''notepad.exe'',
     labelLower = ''notepad'', fileLower = ''notepad.exe'',
     pathLower = ''c:'' @ [CHR 0x5C] @ ''apps'' @ [CHR 0x5C] @ ''notepad.exe'' \<rparr>"

definition notepadStartMenu :: program where
  "notepadStartMenu = \<lparr>
     label = ''Notepad'',
     path = ''C:'' @ [CHR 0x5C] @ ''menu'' @ [CHR 0x5C] @ ''Notepad.lnk'',
     source = ''startMenu'', ext = ''.lnk'', fileName = ''notepad.lnk'',
     labelLower = ''notepad'', fileLower = ''notepad.lnk'',
     pathLower = ''c:'' @ [CHR 0x5C] @ ''menu'' @ [CHR 0x5C] @ ''notepad.lnk'' \<rparr>"

section \<open>Reading the resolver\<close>

text \<open>The part of an entry's score that comes from the text of the query, the query as
  \<open>resolveProgramPath\<close> hands it to the index, and the condition under which the index is
  consulted at all: the input is not blank, is not itself an existing launchable file and
  names no command on the search path.\<close>

definition textScore :: "program \<Rightarrow> string \<Rightarrow> int" where
  "textScore e query = scoreProgram e query - programSourcePriority (source e)"

definition resolverQuery :: "platform \<Rightarrow> string \<Rightarrow> string" where
  "resolverQuery P input =
     expandEnv P (unquoteWrapped (safeTrim P (Some (JStr input)) (nat MAX_PATH_LEN)))"

definition rankQuery :: "platform \<Rightarrow> string \<Rightarrow> string" where
  "rankQuery P input = toLowerCase (safeTrim P (Some (JStr (resolverQuery P input))) 120)"

definition reachesIndex :: "platform \<Rightarrow> string \<Rightarrow> bool" where
  "reachesIndex P input =
     (unquoteWrapped (safeTrim P (Some (JStr input)) (nat MAX_PATH_LEN)) \<noteq> []
      \<and> \<not> (fileExists P (resolverQuery P input) \<and> isAppLaunchFilePath P (resolverQuery P input))
      \<and> findCommandOnPath P (resolverQuery P input) = [])"

section \<open>Invariants of the merge\<close>



section \<open>Facts about the primitives\<close>

lemma dropWhile_id_hd: "xs \<noteq> [] \<Longrightarrow> \<not> Q (hd xs) \<Longrightarrow> dropWhile Q xs = xs"
  by (cases xs) auto

lemma dropWhile_keeps_last:
  "xs \<noteq> [] \<Longrightarrow> \<not> Q (last xs) \<Longrightarrow> dropWhile Q xs \<noteq> [] \<and> last (dropWhile Q xs) = last xs"
  by (induction xs) auto

lemma trim_ends:
  "trim s = [] \<or> (\<not> isSpace (hd (trim s)) \<and> \<not> isSpace (last (trim s)))"
proof (cases "dropWhile isSpace s = []")
  case True
  show ?thesis unfolding trim_def True by simp
next
  case False
  let ?d = "dropWhile isSpace s"
  let ?e = "dropWhile isSpace (rev ?d)"
  have hd_d: "\<not> isSpace (hd ?d)" using False hd_dropWhile by blast
  have "rev ?d \<noteq> []" "\<not> isSpace (last (rev ?d))"
    using False hd_d by (simp_all add: last_rev)
  then have e: "?e \<noteq> []" "last ?e = hd ?d"
    using dropWhile_keeps_last [of "rev ?d" isSpace] False by (simp_all add: last_rev)
  have hd_e: "\<not> isSpace (hd ?e)" using e(1) hd_dropWhile by blast
  have "hd (rev ?e) = last ?e" "last (rev ?e) = hd ?e"
    using e(1) by (simp_all add: hd_rev last_rev)
  then show ?thesis using hd_d hd_e e by (simp add: trim_def)
qed

lemma trim_fixed:
  assumes "s = [] \<or> (\<not> isSpace (hd s) \<and> \<not> isSpace (last s))"
  shows "trim s = s"
proof (cases "s = []")
  case True
  then show ?thesis by (simp add: trim_def)
next
  case False
  then have h: "\<not> isSpace (hd s)" and l: "\<not> isSpace (last s)" using assms by auto
  have "dropWhile isSpace s = s" using False h by (rule dropWhile_id_hd)
  moreover have "dropWhile isSpace (rev s) = rev s"
    using False l by (intro dropWhile_id_hd) (simp_all add: hd_rev)
  ultimately show ?thesis by (simp add: trim_def)
qed

lemma trim_idem: "trim (trim s) = trim s"
  using trim_ends [of s] by (rule trim_fixed)

lemma trim_Nil: "trim [] = []"
  by (simp add: trim_def)



section \<open>Tile validation\<close>





section \<open>Totality of the merge\<close>

text \<open>
  C2. \<open>mergeWithDefaults\<close> is meant never to throw. It throws a TypeError on null (the
  defaults are computed from the raw value before the guard that replaces a non-object
  by \<open>{}\<close>), on a profile whose page list contains null, and on a launcher whose
  \<open>candidates\<close> is a number, on every platform.
\<close>

theorem mergeWithDefaults_throws:
  "mergeWithDefaults P JNull = None
   \<and> mergeWithDefaults P cfgNullPage = None
   \<and> mergeWithDefaults P cfgBadCandidates = None"
proof -
  have "mergeWithDefaults P JNull = None"
    by (simp add: mergeWithDefaults_def createDefaultConfig_def)
  moreover have "mergeWithDefaults P cfgNullPage = None"
    by code_simp
  moreover have "mergeWithDefaults P cfgBadCandidates = None"
    by code_simp
  ultimately show ?thesis by simp
qed

section \<open>Atomic persistence\<close>

text \<open>
  C8. Persisting the configuration is atomic. When the rename fails after the temporary
  file has been written, \<open>persistConfig\<close> throws, the temporary file holds the new JSON
  and the configuration file is what it was; the same holds when the write of the
  temporary file fails. Without a failure the configuration file holds the new JSON.
\<close>

theorem persistConfig_atomic:
  "fst (persistConfig P RenameFails pid stamp CONFIG_PATH cfg d) = Inl IoError
   \<and> snd (persistConfig P RenameFails pid stamp CONFIG_PATH cfg d) CONFIG_PATH = d CONFIG_PATH
   \<and> snd (persistConfig P RenameFails pid stamp CONFIG_PATH cfg d) (tmpPath CONFIG_PATH pid stamp)
       = Some (jsonStringify P cfg)
   \<and> snd (persistConfig P WriteFails pid stamp CONFIG_PATH cfg d) CONFIG_PATH = d CONFIG_PATH
   \<and> fst (persistConfig P NoFault pid stamp CONFIG_PATH cfg d) = Inr ()
   \<and> snd (persistConfig P NoFault pid stamp CONFIG_PATH cfg d) CONFIG_PATH
       = Some (jsonStringify P cfg)"
proof -
  have tmp: "tmpPath CONFIG_PATH pid stamp \<noteq> CONFIG_PATH"
  proof
    assume "tmpPath CONFIG_PATH pid stamp = CONFIG_PATH"
    then have "length (snd (tmpPath CONFIG_PATH pid stamp)) = length (snd CONFIG_PATH)" by simp
    then show False by (simp add: tmpPath_def)
  qed
  have bak: "(fst CONFIG_PATH, snd CONFIG_PATH @ ''.bak'') \<noteq> CONFIG_PATH"
    by (metis append_self_conv list.distinct(1) snd_conv)
  show ?thesis
    using tmp bak
    by (auto simp: persistConfig_def writeJsonAtomic_def Let_def split: option.splits)
qed

section \<open>Token check\<close>












section \<open>Rate limiting\<close>

lemma map_of_setProp_same: "map_of (setProp k v xs) k = Some v"
  by (induction xs) auto


lemma map_of_filter_keep:
  "map_of xs k = Some v \<Longrightarrow> Q (k, v) \<Longrightarrow> map_of (filter Q xs) k = Some v"
  by (induction xs) (auto split: if_splits)

lemma maxNum_cases:
  "(\<exists>w. maxNum lo v = Fin w \<and> lo \<le> w) \<or> maxNum lo v = PosInf \<or> maxNum lo v = NaN"
  by (cases v) auto

lemma nextRate_not_swept:
  "\<not> ltNum (of_int (rate_t0 (nextRate P srv req)))
       (sweepCutoff (dateNow req) (windowMsOf P srv))"
proof -
  consider w where "windowMsOf P srv = Fin w" "250 \<le> w"
    | "windowMsOf P srv = PosInf" | "windowMsOf P srv = NaN"
    using maxNum_cases [of 250 "rateSetting P (config srv) ''windowMs'' 3000"]
    by (auto simp: windowMsOf_def)
  then show ?thesis
  proof cases
    case 1
    then show ?thesis
      by (auto simp: nextRate_def Let_def split: option.splits)
  qed (simp_all add: nextRate_def Let_def)
qed

lemma rateLimit_entry:
  "map_of (rateState (snd (rateLimit P srv req))) (clientIp req) = Some (nextRate P srv req)"
proof -
  let ?states = "setProp (clientIp req) (nextRate P srv req) (rateState srv)"
  let ?Q = "\<lambda>kv. \<not> ltNum (of_int (rate_t0 (snd kv)))
                       (sweepCutoff (dateNow req) (windowMsOf P srv))"
  have 1: "map_of ?states (clientIp req) = Some (nextRate P srv req)"
    by (rule map_of_setProp_same)
  have "?Q (clientIp req, nextRate P srv req)"
    using nextRate_not_swept [of P srv req] by simp
  with 1 have 2: "map_of (filter ?Q ?states) (clientIp req) = Some (nextRate P srv req)"
    by (rule map_of_filter_keep)
  show ?thesis
    using 1 2 by (simp add: rateLimit_def Let_def)
qed

lemma rateLimit_step:
  "fst (rateLimit P srv req) =
     (if gtNum (of_nat (rate_n (nextRate P srv req))) (maxOf P srv)
      then Respond (errorJson 429 ''rate limited'') else Next)"
  by (simp add: rateLimit_def Let_def)

lemma rateLimit_config: "config (snd (rateLimit P srv req)) = config srv"
  by (simp add: rateLimit_def Let_def)

lemma rateLimit_settings:
  "windowMsOf P (snd (rateLimit P srv req)) = windowMsOf P srv"
  "maxOf P (snd (rateLimit P srv req)) = maxOf P srv"
  by (simp_all add: windowMsOf_def maxOf_def rateLimit_config)


lemma rateLimitAll_Cons:
  "rateLimitAll P srv (r # rs) =
     (fst (rateLimit P srv r) # fst (rateLimitAll P (snd (rateLimit P srv r)) rs),
      snd (rateLimitAll P (snd (rateLimit P srv r)) rs))"
  by (simp split: prod.splits)

declare rateLimitAll.simps(2) [simp del]

lemma window_run:
  assumes "windowMsOf P srv = Fin w" "maxOf P srv = Fin m"
    "map_of (rateState srv) c = Some (Rate t0 n)"
    "\<forall>r \<in> set rs. clientIp r = c \<and> \<not> of_int (dateNow r - t0) > w"
  shows "fst (rateLimitAll P srv rs)
       = map (\<lambda>k. if of_nat k > m then Respond (errorJson 429 ''rate limited'') else Next)
           [n + 1 ..< n + 1 + length rs]
     \<and> map_of (rateState (snd (rateLimitAll P srv rs))) c = Some (Rate t0 (n + length rs))
     \<and> config (snd (rateLimitAll P srv rs)) = config srv"
  using assms
proof (induction rs arbitrary: srv n)
  case Nil
  then show ?case by simp
next
  case (Cons r rs)
  let ?srv = "snd (rateLimit P srv r)"
  have r: "clientIp r = c" "\<not> of_int (dateNow r - t0) > w" using Cons.prems(4) by auto
  have nr: "nextRate P srv r = Rate t0 (n + 1)"
    using r Cons.prems(1,3) by (simp add: nextRate_def Let_def)
  have entry: "map_of (rateState ?srv) c = Some (Rate t0 (n + 1))"
    using rateLimit_entry [of P srv r] r(1) nr by simp
  have step: "fst (rateLimit P srv r)
      = (if of_nat (n + 1) > m then Respond (errorJson 429 ''rate limited'') else Next)"
    using nr Cons.prems(2) by (simp add: rateLimit_step)
  have ih: "fst (rateLimitAll P ?srv rs)
       = map (\<lambda>k. if of_nat k > m then Respond (errorJson 429 ''rate limited'') else Next)
           [n + 1 + 1 ..< n + 1 + 1 + length rs]
     \<and> map_of (rateState (snd (rateLimitAll P ?srv rs))) c = Some (Rate t0 (n + 1 + length rs))
     \<and> config (snd (rateLimitAll P ?srv rs)) = config ?srv"
    using Cons.prems by (intro Cons.IH) (simp_all add: rateLimit_settings entry)
  have upt: "[n + 1 ..< n + 1 + length (r # rs)] = (n + 1) # [n + 1 + 1 ..< n + 1 + 1 + length rs]"
    by (subst upt_conv_Cons) simp_all
  show ?case
    unfolding upt rateLimitAll_Cons using ih step
    by (simp del: upt_Suc add: rateLimit_config)
qed

lemma rate_settings_example:
  assumes "get (config srv) ''rateLimit''
      = Some (JObj [(''windowMs'', JNum (Fin 1000)), (''max'', JNum (Fin 5))])"
  shows "windowMsOf P srv = Fin 1000" "maxOf P srv = Fin 5"
  using assms by (simp_all add: windowMsOf_def maxOf_def rateSetting_def orElse_def)

lemma retryAfter_absent: "retryAfter (send req (errorJson code msg)) = None"
  by code_simp

text \<open>
  C4 (as the code has it). With \<open>rateLimit = {windowMs: 1000, max: 5}\<close>, for a client
  whose entry is missing or expired when its first request arrives: of the requests that
  arrive within 1000 ms of the first one, the first five pass the rate limiter and the
  sixth and every later one is answered 429 with the body
  \<open>{ok: false, error: "rate limited"}\<close>; the response carries no \<open>Retry-After\<close>
  header. A request that arrives more than 1000 ms after the first one starts a new
  window with the counter at one, and passes.
\<close>

theorem rateLimit_window:
  "get (config srv) ''rateLimit''
      = Some (JObj [(''windowMs'', JNum (Fin 1000)), (''max'', JNum (Fin 5))])
   \<and> clientIp r1 = c
   \<and> (map_of (rateState srv) c = None
       \<or> (\<exists>t0 n. map_of (rateState srv) c = Some (Rate t0 n) \<and> dateNow r1 - t0 > 1000))
   \<and> (\<forall>r \<in> set rs. clientIp r = c \<and> dateNow r - dateNow r1 \<le> 1000)
   \<and> clientIp r' = c \<and> dateNow r' - dateNow r1 > 1000
   \<longrightarrow> fst (rateLimitAll P srv (r1 # rs))
         = map (\<lambda>k. if k \<le> 5 then Next else Respond (errorJson 429 ''rate limited''))
             [1 ..< length rs + 2]
       \<and> retryAfter (send req (errorJson 429 ''rate limited'')) = None
       \<and> fst (rateLimit P (snd (rateLimitAll P srv (r1 # rs))) r') = Next
       \<and> map_of (rateState (snd (rateLimit P (snd (rateLimitAll P srv (r1 # rs))) r'))) c
           = Some (Rate (dateNow r') 1)"
proof (intro impI, elim conjE)
  assume cfg: "get (config srv) ''rateLimit''
      = Some (JObj [(''windowMs'', JNum (Fin 1000)), (''max'', JNum (Fin 5))])"
    and r1: "clientIp r1 = c"
    and fresh: "map_of (rateState srv) c = None
       \<or> (\<exists>t0 n. map_of (rateState srv) c = Some (Rate t0 n) \<and> dateNow r1 - t0 > 1000)"
    and inside: "\<forall>r \<in> set rs. clientIp r = c \<and> dateNow r - dateNow r1 \<le> 1000"
    and r': "clientIp r' = c" "dateNow r' - dateNow r1 > 1000"
  let ?srv1 = "snd (rateLimit P srv r1)"
  let ?end = "snd (rateLimitAll P srv (r1 # rs))"
  have w: "windowMsOf P srv = Fin 1000" and m: "maxOf P srv = Fin 5"
    using rate_settings_example [OF cfg] by simp_all
  have nr1: "nextRate P srv r1 = Rate (dateNow r1) 1"
    using fresh r1 w by (auto simp: nextRate_def Let_def)
  have step1: "fst (rateLimit P srv r1) = Next"
    using nr1 m by (simp add: rateLimit_step)
  have entry1: "map_of (rateState ?srv1) c = Some (Rate (dateNow r1) 1)"
    using rateLimit_entry [of P srv r1] r1 nr1 by simp
  have run: "fst (rateLimitAll P ?srv1 rs)
       = map (\<lambda>k. if of_nat k > (5::rat) then Respond (errorJson 429 ''rate limited'') else Next)
           [1 + 1 ..< 1 + 1 + length rs]
     \<and> map_of (rateState (snd (rateLimitAll P ?srv1 rs))) c
         = Some (Rate (dateNow r1) (1 + length rs))
     \<and> config (snd (rateLimitAll P ?srv1 rs)) = config ?srv1"
    using inside
    by (intro window_run [where w = 1000])
       (auto simp: rateLimit_settings w m entry1)
  have all: "fst (rateLimitAll P srv (r1 # rs))
         = map (\<lambda>k. if k \<le> 5 then Next else Respond (errorJson 429 ''rate limited''))
             [1 ..< length rs + 2]"
  proof -
    have "[1 ..< length rs + 2] = 1 # [1 + 1 ..< 1 + 1 + length rs]"
      by (subst upt_conv_Cons) simp_all
    moreover have "(\<lambda>k::nat. if of_nat k > (5::rat) then Respond (errorJson 429 ''rate limited'')
                        else Next)
        = (\<lambda>k. if k \<le> 5 then Next else Respond (errorJson 429 ''rate limited''))"
      by (rule ext) (metis not_le of_nat_le_iff of_nat_numeral)
    ultimately show ?thesis
      unfolding rateLimitAll_Cons using run step1
      by (simp del: upt_Suc)
  qed
  have end_eq: "?end = snd (rateLimitAll P ?srv1 rs)"
    by (simp add: rateLimitAll_Cons)
  have end_cfg: "config ?end = config srv"
    using run by (simp add: end_eq rateLimit_config del: upt_Suc)
  have end_entry: "map_of (rateState ?end) c = Some (Rate (dateNow r1) (1 + length rs))"
    using run by (simp add: end_eq del: upt_Suc)
  have w': "windowMsOf P ?end = Fin 1000" and m': "maxOf P ?end = Fin 5"
    using w m end_cfg by (simp_all add: windowMsOf_def maxOf_def)
  have nr': "nextRate P ?end r' = Rate (dateNow r') 1"
    using r' end_entry w' by (simp add: nextRate_def Let_def)
  have "fst (rateLimit P ?end r') = Next"
    using nr' m' by (simp add: rateLimit_step)
  moreover have "map_of (rateState (snd (rateLimit P ?end r'))) c = Some (Rate (dateNow r') 1)"
    using rateLimit_entry [of P ?end r'] r'(1) nr' by simp
  ultimately show "fst (rateLimitAll P srv (r1 # rs))
         = map (\<lambda>k. if k \<le> 5 then Next else Respond (errorJson 429 ''rate limited''))
             [1 ..< length rs + 2]
       \<and> retryAfter (send req (errorJson 429 ''rate limited'')) = None
       \<and> fst (rateLimit P ?end r') = Next
       \<and> map_of (rateState (snd (rateLimit P ?end r'))) c = Some (Rate (dateNow r') 1)"
    using all retryAfter_absent by simp
qed

theorem rateLimit_window_witness:
  "fst (rateLimitAll examplePlatform exampleServer
          (map (exampleRequest None) [0, 100, 200, 300, 400, 500]))
     = [Next, Next, Next, Next, Next, Respond (errorJson 429 ''rate limited'')]
   \<and> fst (rateLimit examplePlatform
            (snd (rateLimitAll examplePlatform exampleServer
                    (map (exampleRequest None) [0, 100, 200, 300, 400, 500])))
            (exampleRequest None 1500))
     = Next"
proof -
  let ?rs = "map (exampleRequest None) [100, 200, 300, 400, 500]"
  have cfg: "get (config exampleServer) ''rateLimit''
      = Some (JObj [(''windowMs'', JNum (Fin 1000)), (''max'', JNum (Fin 5))])"
    by (simp add: exampleServer_def)
  have ip: "clientIp (exampleRequest None t) = ''10.0.0.7''" for t
    by (simp add: clientIp_def exampleRequest_def)
  have fresh: "map_of (rateState exampleServer) ''10.0.0.7'' = None"
    by (simp add: exampleServer_def)
  have inside: "\<forall>r \<in> set ?rs. clientIp r = ''10.0.0.7''
      \<and> dateNow r - dateNow (exampleRequest None 0) \<le> 1000"
    by (simp add: ip) (simp add: exampleRequest_def)
  have late: "dateNow (exampleRequest None 1500) - dateNow (exampleRequest None 0) > 1000"
    by (simp add: exampleRequest_def)
  have verdicts: "map (\<lambda>k::nat. if k \<le> 5 then Next else Respond (errorJson 429 ''rate limited''))
      [1 ..< length ?rs + 2]
    = [Next, Next, Next, Next, Next, Respond (errorJson 429 ''rate limited'')]"
    by code_simp
  have list: "map (exampleRequest None) [0, 100, 200, 300, 400, 500]
      = exampleRequest None 0 # ?rs"
    by simp
  show ?thesis
    unfolding list
    using rateLimit_window
      [of exampleServer "exampleRequest None 0" "''10.0.0.7''" ?rs "exampleRequest None 1500"
          examplePlatform]
      cfg ip fresh inside late verdicts
    by presburger
qed

text \<open>
  C4 as stated fails: six requests of one client within one window are answered 200 five
  times and then 429, and the 429 response has no \<open>Retry-After\<close> header.
\<close>

theorem retry_after_counterexample:
  "map statusAndRetryAfter
     (fst (apiAll examplePlatform True exampleHandlers exampleServer
        (map (Pair GetHealth)
           (map (exampleRequest (Some ''correct-horse-battery'')) [0, 100, 200, 300, 400, 500]))))
   = [(200, None), (200, None), (200, None), (200, None), (200, None), (429, None)]"
  by code_simp

section \<open>Order of the token check and the rate limiter\<close>



section \<open>Tiles of a merged configuration\<close>



























section \<open>Shape of a merged configuration\<close>



subsection \<open>Profiles\<close>

lemma no_Cons: "(\<forall>x xs. l \<noteq> x # xs) = (l = [])"
  by (cases l) auto

lemma keptProfiles_Cons:
  "keptProfiles P (p # ps) =
     (case normalizeProfile P p of Some (Some q) \<Rightarrow> [q] | _ \<Rightarrow> []) @ keptProfiles P ps"
  by (simp add: keptProfiles_def)

lemma loop_kept:
  "normalizeProfiles_loop P out ps = Some r \<Longrightarrow> r = out @ keptProfiles P ps"
proof (induction ps arbitrary: out)
  case Nil
  then show ?case by (simp add: keptProfiles_def)
next
  case (Cons p ps)
  show ?case
  proof (cases "normalizeProfile P p")
    case None
    then show ?thesis using Cons.prems by simp
  next
    case (Some o1)
    show ?thesis
    proof (cases o1)
      case None
      then show ?thesis using Cons.prems Some Cons.IH [of out] by (simp add: keptProfiles_Cons)
    next
      case (Some q)
      then show ?thesis
        using Cons.prems \<open>normalizeProfile P p = Some o1\<close> Cons.IH [of "out @ [q]"]
        by (simp add: keptProfiles_Cons)
    qed
  qed
qed

lemma normalizeProfiles_kept:
  assumes "normalizeProfiles P v = Some r"
  shows "r = (if keptProfiles P (case v of Some (JArr ps) \<Rightarrow> ps | _ \<Rightarrow> []) = []
              then getDefaultProfiles
              else keptProfiles P (case v of Some (JArr ps) \<Rightarrow> ps | _ \<Rightarrow> []))"
proof (cases "\<exists>p ps. v = Some (JArr (p # ps))")
  case True
  then obtain p ps where v: "v = Some (JArr (p # ps))" by blast
  then obtain out where out: "normalizeProfiles_loop P [] (p # ps) = Some out"
    "r = (if out \<noteq> [] then out else getDefaultProfiles)"
    using assms by (auto simp: normalizeProfiles_def split: option.splits)
  have "out = keptProfiles P (p # ps)" using loop_kept [OF out(1)] by simp
  then show ?thesis using out(2) v by simp
next
  case False
  then have "r = getDefaultProfiles"
    using assms by (auto simp: normalizeProfiles_def split: option.splits json.splits list.splits)
  moreover have "keptProfiles P (case v of Some (JArr ps) \<Rightarrow> ps | _ \<Rightarrow> []) = []"
    using False by (auto simp: keptProfiles_def no_Cons split: option.splits json.splits)
  ultimately show ?thesis by simp
qed

lemma mapM_Some:
  "mapM f xs = Some ys \<Longrightarrow> length ys = length xs \<and> (\<forall>i < length xs. f (xs ! i) = Some (ys ! i))"
proof (induction xs arbitrary: ys)
  case Nil
  then show ?case by simp
next
  case (Cons x xs)
  then obtain y ys' where ys: "f x = Some y" "mapM f xs = Some ys'" "ys = y # ys'"
    by (auto split: option.splits)
  then show ?case using Cons.IH [OF ys(2)] by (auto simp: nth_Cons split: nat.splits)
qed

lemma mapM_pages:
  "mapM (normalizePage P) xs = Some ys \<Longrightarrow>
   ys = map (\<lambda>x. obj_str [(''id'', trim (strOr P (get x ''id''))),
                           (''label'', trim (strOr P (get x ''label'')))]) xs"
proof (induction xs arbitrary: ys)
  case Nil
  then show ?case by simp
next
  case (Cons x xs)
  then show ?case
    by (auto simp: normalizePage_def split: option.splits if_splits)
qed


lemma keptProfiles_origin:
  "q \<in> set (keptProfiles P ps) \<Longrightarrow> \<exists>p \<in> set ps. normalizeProfile P p = Some (Some q)"
  by (auto simp: keptProfiles_def split: option.splits)


subsection \<open>Profiles are normalised once\<close>

lemma cleanStr_trim: "trim s \<noteq> [] \<Longrightarrow> cleanStr (trim s)"
  by (simp add: cleanStr_def trim_idem)

lemma cleanPage_main: "cleanPage mainPage"
  by code_simp

lemma cleanPage_obj:
  "a \<noteq> [] \<Longrightarrow> b \<noteq> [] \<Longrightarrow> cleanPage (obj_str [(''id'', trim a), (''label'', trim b)])
     = (trim a \<noteq> [] \<and> trim b \<noteq> [])"
  by (auto simp: cleanPage_def obj_str_def idOf_def labelOf_def cleanStr_def trim_idem)

lemma cleanPage_kept:
  assumes "pg \<in> set (keptPages P pages)"
  shows "cleanPage pg"
proof -
  obtain x where x: "pg = obj_str [(''id'', trim (strOr P (get x ''id''))),
                           (''label'', trim (strOr P (get x ''label'')))]" "pageKept pg"
    using assms by (auto simp: keptPages_def)
  have "trim (strOr P (get x ''id'')) \<noteq> []" "trim (strOr P (get x ''label'')) \<noteq> []"
    using x by (auto simp: pageKept_def obj_str_def)
  then show ?thesis
    unfolding x(1)
    by (simp add: cleanPage_def obj_str_def idOf_def labelOf_def cleanStr_def trim_idem)
qed

lemma normalizeProfile_clean:
  assumes "normalizeProfile P p = Some (Some q)"
  shows "cleanProfile q"
proof -
  let ?i = "trim (strOr P (get p ''id''))" and ?l = "trim (strOr P (get p ''label''))"
  have ok: "?i \<noteq> []" "?l \<noteq> []"
    using assms by (auto simp: normalizeProfile_def Let_def split: if_splits)
  obtain pages where pages:
    "(case get p ''pages'' of
        Some (JArr (x # xs)) \<Rightarrow> map_option (filter pageKept) (mapM (normalizePage P) (x # xs))
      | _ \<Rightarrow> Some [mainPage]) = Some pages"
    "q = JObj [(''id'', JStr ?i), (''label'', JStr ?l),
               (''pages'', JArr (if pages \<noteq> [] then pages else [mainPage]))]"
    using assms ok by (auto simp: normalizeProfile_def Let_def split: if_splits option.splits)
  have "list_all cleanPage pages"
  proof (cases "\<exists>x xs. get p ''pages'' = Some (JArr (x # xs))")
    case True
    then obtain x xs where x: "get p ''pages'' = Some (JArr (x # xs))" by blast
    then obtain ys where ys: "mapM (normalizePage P) (x # xs) = Some ys" "pages = filter pageKept ys"
      using pages(1) by auto
    have "pages = keptPages P (x # xs)"
      using mapM_pages [OF ys(1)] ys(2) by (simp add: keptPages_def)
    then show ?thesis using cleanPage_kept by (auto simp: list_all_iff)
  next
    case False
    then have "pages = [mainPage]"
      using pages(1) by (auto split: option.splits json.splits list.splits)
    then show ?thesis by (simp add: cleanPage_main)
  qed
  then show ?thesis
    using ok pages(2)
    by (simp add: cleanProfile_def cleanStr_trim cleanPage_main idOf_def labelOf_def pagesOf_def)
qed

lemma keptProfiles_clean: "list_all cleanProfile (keptProfiles P ps)"
  using keptProfiles_origin normalizeProfile_clean by (fastforce simp: list_all_iff)

lemma defaults_clean: "list_all cleanProfile getDefaultProfiles" "getDefaultProfiles \<noteq> []"
  by code_simp+

lemma normalizeProfiles_clean:
  assumes "normalizeProfiles P v = Some r"
  shows "list_all cleanProfile r \<and> r \<noteq> []"
  using normalizeProfiles_kept [OF assms] keptProfiles_clean defaults_clean by auto

lemma cleanPage_fixed:
  assumes "cleanPage pg"
  shows "normalizePage P pg = Some pg \<and> pageKept pg"
proof -
  obtain a b where pg: "pg = JObj [(''id'', JStr a), (''label'', JStr b)]" "cleanStr a" "cleanStr b"
    using assms unfolding cleanPage_def by blast
  then show ?thesis
    by (simp add: normalizePage_def pageKept_def obj_str_def strOr_def cleanStr_def)
qed

lemma mapM_fixed: "\<forall>x \<in> set xs. f x = Some x \<Longrightarrow> mapM f xs = Some xs"
  by (induction xs) auto

lemma cleanProfile_fixed:
  assumes "cleanProfile q"
  shows "normalizeProfile P q = Some (Some q)"
proof -
  obtain i l pgs where q: "q = JObj [(''id'', JStr i), (''label'', JStr l), (''pages'', JArr pgs)]"
    "cleanStr i" "cleanStr l" "pgs \<noteq> []" "list_all cleanPage pgs"
    using assms unfolding cleanProfile_def by blast
  obtain x xs where pgs: "pgs = x # xs" using q(4) by (cases pgs) auto
  have "mapM (normalizePage P) pgs = Some pgs"
    using q(5) cleanPage_fixed by (intro mapM_fixed) (auto simp: list_all_iff)
  moreover have "filter pageKept pgs = pgs"
    using q(5) cleanPage_fixed by (auto simp: list_all_iff filter_id_conv)
  ultimately show ?thesis
    using q(1,2,3,4) pgs
    by (simp add: normalizeProfile_def Let_def strOr_def cleanStr_def)
qed

lemma loop_fixed:
  "list_all cleanProfile qs \<Longrightarrow> normalizeProfiles_loop P out qs = Some (out @ qs)"
  by (induction qs arbitrary: out) (simp_all add: cleanProfile_fixed)

lemma normalizeProfiles_fixed:
  assumes "list_all cleanProfile ps" "ps \<noteq> []"
  shows "normalizeProfiles P (Some (JArr ps)) = Some ps"
proof -
  obtain p rest where ps: "ps = p # rest" using assms(2) by (cases ps) auto
  have "normalizeProfiles_loop P [] ps = Some ps" using loop_fixed [OF assms(1), of P "[]"] by simp
  then show ?thesis using ps by (simp add: normalizeProfiles_def)
qed

lemma normalizeProfiles_idem:
  "normalizeProfiles P v = Some ps \<Longrightarrow> normalizeProfiles P' (Some (JArr ps)) = Some ps"
  using normalizeProfiles_clean normalizeProfiles_fixed by blast

subsection \<open>Launchers keep their shape\<close>






















section \<open>Built-in tiles\<close>




section \<open>Profiles of a merged configuration\<close>




section \<open>A second merge\<close>









section \<open>Program resolution\<close>

lemma rankPrograms_pair:
  assumes "index = [L, S] \<or> index = [S, L]"
    "scoreProgram L (toLowerCase (safeTrim P (Some (JStr query)) 120))
       = scoreProgram S (toLowerCase (safeTrim P (Some (JStr query)) 120)) + 40"
  shows "rankPrograms P index query 8 True
     = [(L, scoreProgram L (toLowerCase (safeTrim P (Some (JStr query)) 120))),
        (S, scoreProgram S (toLowerCase (safeTrim P (Some (JStr query)) 120)))]"
  using assms by (auto simp: rankPrograms_def Let_def sortRows_def rankCompare_def)

text \<open>Claim C7, as the code has it. Take an index of one entry from a configured launcher
  path and one from the Start Menu, in either order, whose scores for the text of the
  query are equal, and an input for which the index is consulted. The launcher entry is
  ranked first, and \<open>resolveProgramPath\<close> returns the path of the first of the two, in
  that order, that matches the input exactly; failing that, of the first whose file name
  is the input or the input with \<open>.exe\<close>; and the empty string when neither matches in
  such a way: the 40 points between the two sources are less than the margin that
  \<open>chooseBestProgramMatch\<close> asks for.\<close>

theorem resolveProgramPath_launcher_first:
  assumes "source L = ''launcherPath''" and "source S = ''startMenu''"
    and "index = [L, S] \<or> index = [S, L]"
    and "reachesIndex P input"
    and "textScore L (rankQuery P input) = textScore S (rankQuery P input)"
  shows "resolveProgramPath P index input =
     (let lowered = toLowerCase (resolverQuery P input) in
      if isExactMatch P lowered L then path L
      else if isExactMatch P lowered S then path S
      else if isExeNameMatch lowered L then path L
      else if isExeNameMatch lowered S then path S
      else [])"
proof -
  let ?e = "resolverQuery P input"
  let ?q = "toLowerCase (safeTrim P (Some (JStr ?e)) 120)"
  have score: "scoreProgram L ?q = scoreProgram S ?q + 40"
    using assms(1,2,5) by (simp add: textScore_def rankQuery_def programSourcePriority_def)
  have ranked: "rankPrograms P index ?e 8 True = [(L, scoreProgram L ?q), (S, scoreProgram S ?q)]"
    using assms(3) score by (rule rankPrograms_pair)
  have best: "chooseBestProgramMatch [(L, scoreProgram L ?q), (S, scoreProgram S ?q)] = []"
    using score by simp
  have reach: "unquoteWrapped (safeTrim P (Some (JStr input)) (nat MAX_PATH_LEN)) \<noteq> []"
    "\<not> (fileExists P ?e \<and> isAppLaunchFilePath P ?e)" "findCommandOnPath P ?e = []"
    using assms(4) by (simp_all add: reachesIndex_def)
  have nonempty: "rankPrograms P index ?e 8 True \<noteq> []"
    unfolding ranked by simp
  have "resolveProgramPath P index input =
     (case find (isExactMatch P (toLowerCase ?e)) (map fst (rankPrograms P index ?e 8 True)) of
        Some exact \<Rightarrow> path exact
      | None \<Rightarrow>
          (case find (isExeNameMatch (toLowerCase ?e)) (map fst (rankPrograms P index ?e 8 True)) of
             Some byExeName \<Rightarrow> path byExeName
           | None \<Rightarrow> chooseBestProgramMatch (rankPrograms P index ?e 8 True)))"
    unfolding resolveProgramPath_def Let_def resolverQuery_def [symmetric]
    using reach nonempty by auto
  also have "\<dots> =
     (let lowered = toLowerCase ?e in
      if isExactMatch P lowered L then path L
      else if isExactMatch P lowered S then path S
      else if isExeNameMatch lowered L then path L
      else if isExeNameMatch lowered S then path S
      else [])"
    unfolding ranked best by (simp add: Let_def)
  finally show ?thesis .
qed

theorem resolveProgramPath_launcher_first_witness:
  "resolveProgramPath examplePlatform [notepadStartMenu, notepadLauncher] ''notepad''
     = path notepadLauncher"
proof -
  have 1: "source notepadLauncher = ''launcherPath''" "source notepadStartMenu = ''startMenu''"
    by code_simp+
  have 2: "reachesIndex examplePlatform ''notepad''" by code_simp
  have 3: "textScore notepadLauncher (rankQuery examplePlatform ''notepad'')
      = textScore notepadStartMenu (rankQuery examplePlatform ''notepad'')"
    by code_simp
  have 4: "isExactMatch examplePlatform (toLowerCase (resolverQuery examplePlatform ''notepad''))
      notepadLauncher"
    by code_simp
  show ?thesis
    using resolveProgramPath_launcher_first [of notepadLauncher notepadStartMenu
        "[notepadStartMenu, notepadLauncher]" examplePlatform "''notepad''"] 1 2 3 4
    by (simp add: Let_def)
qed

text \<open>The claim as the specification words it fails on the query \<open>note\<close>: both entries
  score 197 on the text, neither matches exactly, and nothing is returned.\<close>

theorem equal_text_score_counterexample:
  "textScore notepadLauncher (rankQuery examplePlatform ''note'') = 197
   \<and> textScore notepadStartMenu (rankQuery examplePlatform ''note'') = 197
   \<and> resolveProgramPath examplePlatform [notepadLauncher, notepadStartMenu] ''note'' = []
   \<and> path notepadLauncher \<noteq> []"
  by code_simp

end
